theory Spec2Isabelle
  imports Main "HOL-Library.Word"
begin

unbundle bit_operations_syntax

section \<open>The libjpeg-turbo image decoder of LVGL (lv_libjpeg_turbo.c)\<close>

text \<open>
  The file registers three callbacks with the image decoder framework:
  \<^verbatim>\<open>decoder_info\<close>, \<^verbatim>\<open>decoder_open\<close> and \<^verbatim>\<open>decoder_close\<close>. They are embedded here
  as functions on an explicit world: the file system, the decode engine and the
  allocator are parameters of the world, the image cache and a log of the calls
  made to the collaborators are its state. Calls to \<^verbatim>\<open>LV_LOG_WARN\<close> have no effect
  on that state and are left out.
\<close>

subsection \<open>Values\<close>

type_synonym u8 = "8 word"
type_synonym u32 = "32 word"

text \<open>A pointer is an address; address 0 is \<^verbatim>\<open>NULL\<close>.\<close>

type_synonym ptr = nat

abbreviation NULL :: ptr where
  "NULL \<equiv> 0"

datatype lv_result_t = LV_RESULT_INVALID | LV_RESULT_OK

datatype lv_image_src_t =
  LV_IMAGE_SRC_VARIABLE | LV_IMAGE_SRC_FILE | LV_IMAGE_SRC_SYMBOL | LV_IMAGE_SRC_UNKNOWN

datatype lv_cache_src_type_t = LV_CACHE_SRC_TYPE_PATH | LV_CACHE_SRC_TYPE_POINTER

datatype lv_color_format_t = LV_COLOR_FORMAT_UNKNOWN | LV_COLOR_FORMAT_RGB888

text \<open>
  \<^verbatim>\<open>lv_fs_read(&f, &jpg_signature, sizeof(jpg_signature), &rn)\<close> copies the bytes
  of the file into the storage of a \<^verbatim>\<open>uint32_t\<close>; the value that the variable then
  has depends on the byte order of the target, which is a parameter of the model.
\<close>

datatype endian = LittleEndian | BigEndian

subsection \<open>The signature macros\<close>

definition JPEG_PIXEL_SIZE :: u32 where
  "JPEG_PIXEL_SIZE = 3"

definition JPEG_SIGNATURE :: u32 where
  "JPEG_SIGNATURE = 0xFFD8FF"

definition IS_JPEG_SIGNATURE :: "u32 \<Rightarrow> bool" where
  "IS_JPEG_SIGNATURE x \<longleftrightarrow> (x AND 0x00FFFFFF) = JPEG_SIGNATURE"

text \<open>
  The value of a \<^verbatim>\<open>uint32_t\<close> whose storage holds the four bytes \<open>b0 b1 b2 b3\<close>, in
  the order of their addresses (the order in which they stand in the file).
\<close>

definition u32_of_bytes :: "endian \<Rightarrow> u8 \<Rightarrow> u8 \<Rightarrow> u8 \<Rightarrow> u8 \<Rightarrow> u32" where
  "u32_of_bytes e b0 b1 b2 b3 =
     (case e of
        LittleEndian \<Rightarrow>
          ucast b0 OR push_bit 8 (ucast b1) OR push_bit 16 (ucast b2) OR push_bit 24 (ucast b3)
      | BigEndian \<Rightarrow>
          ucast b3 OR push_bit 8 (ucast b2) OR push_bit 16 (ucast b1) OR push_bit 24 (ucast b0))"

text \<open>
  The variable is initialised to 0 and the read overwrites its first \<open>rn\<close> bytes, so a
  short read leaves the remaining bytes 0.
\<close>

fun load_u32 :: "endian \<Rightarrow> u8 list \<Rightarrow> u32" where
  "load_u32 e [] = u32_of_bytes e 0 0 0 0"
| "load_u32 e [b0] = u32_of_bytes e b0 0 0 0"
| "load_u32 e [b0, b1] = u32_of_bytes e b0 b1 0 0"
| "load_u32 e [b0, b1, b2] = u32_of_bytes e b0 b1 b2 0"
| "load_u32 e (b0 # b1 # b2 # b3 # bs) = u32_of_bytes e b0 b1 b2 b3"

text \<open>
  The reading of the four bytes that the specification describes: a big-endian 32-bit
  value, whatever the target.
\<close>

definition be32 :: "u8 \<Rightarrow> u8 \<Rightarrow> u8 \<Rightarrow> u8 \<Rightarrow> u32" where
  "be32 b0 b1 b2 b3 = u32_of_bytes BigEndian b0 b1 b2 b3"

subsection \<open>The collaborators: file system, decode engine, allocator, cache\<close>

text \<open>
  The virtual file system is outside this file. An open file is described by what its
  driver answers: whether a seek succeeds, what \<^verbatim>\<open>lv_fs_tell\<close> reports after the seek to
  the end, and the bytes a read from the start delivers.
\<close>

datatype lv_fs_whence_t = LV_FS_SEEK_SET | LV_FS_SEEK_CUR | LV_FS_SEEK_END

record lv_fs_file_t =
  seek_ok :: "lv_fs_whence_t \<Rightarrow> bool"
  tell_ok :: bool
  tell_pos :: u32
  read_ok :: bool
  bytes :: "u8 list"

text \<open>
  The decode engine (libjpeg) is outside this file too. Its behaviour on a byte buffer
  is described by the calls in which it takes \<^verbatim>\<open>error_exit\<close> (the \<^verbatim>\<open>longjmp\<close> back to the
  \<^verbatim>\<open>setjmp\<close> of the caller), the value \<^verbatim>\<open>jpeg_read_header\<close> returns and the dimensions
  it parses. \<open>ReadScanlines k\<close> is the call of \<^verbatim>\<open>jpeg_read_scanlines\<close> made when
  \<^verbatim>\<open>cinfo.output_scanline\<close> is \<open>k\<close>.
\<close>

datatype jpeg_call =
  CreateDecompress | MemSrc | ReadHeader | StartDecompress | AllocSarray
  | ReadScanlines nat | FinishDecompress | DestroyDecompress

datatype jpeg_header_ret = JPEG_SUSPENDED | JPEG_HEADER_OK | JPEG_HEADER_TABLES_ONLY

record jpeg_stream =
  error_exit_in :: "jpeg_call \<Rightarrow> bool"
  header_ret :: jpeg_header_ret
  image_width :: u32
  image_height :: u32

text \<open>The calls the code makes to its collaborators, in the order it makes them.\<close>

datatype event =
    FsOpen string | FsSeek lv_fs_whence_t | FsTell | FsRead nat | FsClose
  | Malloc nat ptr | Free ptr
  | DrawBufMalloc nat ptr | DrawBufFree ptr
  | Strdup ptr ptr
  | Jpeg jpeg_call
  | Memcpy ptr nat
  | CacheLock | CacheUnlock | CacheAdd ptr | CacheFind ptr

datatype invalidate_cb_t = CACHE_INVALIDATE_CB

text \<open>
  The fields \<^verbatim>\<open>data\<close>, \<^verbatim>\<open>data_size\<close>, \<^verbatim>\<open>data_type\<close>, \<^verbatim>\<open>memory_usage\<close>, \<^verbatim>\<open>weight\<close>,
  \<^verbatim>\<open>src\<close>, \<^verbatim>\<open>src_type\<close>, \<^verbatim>\<open>usage_count\<close> and \<^verbatim>\<open>invalidate_cb\<close> of a cache entry.
\<close>

record lv_cache_entry_t =
  entry_data :: ptr
  entry_data_size :: nat
  entry_data_type :: u32
  entry_memory_usage :: nat
  entry_weight :: u32
  entry_src :: ptr
  entry_src_type :: lv_cache_src_type_t
  entry_usage_count :: nat
  entry_invalidate_cb :: "invalidate_cb_t option"

text \<open>The fields \<^verbatim>\<open>cf\<close>, \<^verbatim>\<open>w\<close> and \<^verbatim>\<open>h\<close> of the image header.\<close>

record lv_image_header_t =
  header_cf :: lv_color_format_t
  header_w :: u32
  header_h :: u32

record lv_image_decoder_t =
  cache_data_type :: u32

record lv_image_decoder_dsc_t =
  src :: ptr
  src_type :: lv_image_src_t
  img_data :: ptr
  cache_entry :: ptr

text \<open>
  The world. Its first six fields are the parameters: the files by name, the engine's
  behaviour by input bytes, the target's byte order, what \<^verbatim>\<open>lv_image_src_get_type\<close>
  answers for a source pointer, the ticks that a decode takes, and what a non-volatile
  local variable holds after a \<^verbatim>\<open>longjmp\<close> (see \<^verbatim>\<open>decode_jpeg_file\<close> below). The rest
  is the state: for each coming allocation request whether it succeeds (every request
  succeeds once the list is used up), the last address handed out, the characters of the
  C string at each address, the cache (its entries by address and the list that links
  them, newest first) and the log.

  \<^verbatim>\<open>output_buffer\<close> in \<^verbatim>\<open>decode_jpeg_file\<close> is an automatic variable that is not
  \<^verbatim>\<open>volatile\<close>. It is assigned after the \<^verbatim>\<open>setjmp\<close> and read in the branch to which a
  \<^verbatim>\<open>longjmp\<close> returns, and the C standard leaves the value of such a variable
  indeterminate there once it has been changed (C11 7.13.2.1): the compiled code may have
  kept it in memory, where the assignment is seen, or in a register that the jump
  restores to what it held at the \<^verbatim>\<open>setjmp\<close>. \<open>longjmp_local w p\<close> is the value read
  after the jump when \<open>p\<close> is the value last assigned.
\<close>

record world =
  files :: "string \<Rightarrow> lv_fs_file_t option"
  codec :: "u8 list \<Rightarrow> jpeg_stream"
  byte_order :: endian
  image_src_type :: "ptr \<Rightarrow> lv_image_src_t"
  decode_ticks :: u32
  longjmp_local :: "ptr \<Rightarrow> ptr"
  alloc_plan :: "bool list"
  brk :: ptr
  cstr :: "ptr \<Rightarrow> string"
  entries :: "ptr \<Rightarrow> lv_cache_entry_t option"
  entry_ll :: "ptr list"
  trace :: "event list"

definition log :: "event \<Rightarrow> world \<Rightarrow> world" where
  "log e w = w\<lparr>trace := trace w @ [e]\<rparr>"

text \<open>The events of a run from \<open>w\<close> to \<open>w'\<close>.\<close>

definition new_events :: "world \<Rightarrow> world \<Rightarrow> event list" where
  "new_events w w' = drop (length (trace w)) (trace w')"

subsubsection \<open>Allocator\<close>

definition allocate :: "world \<Rightarrow> ptr \<times> world" where
  "allocate w =
     (case alloc_plan w of
        [] \<Rightarrow> (Suc (brk w), w\<lparr>brk := Suc (brk w)\<rparr>)
      | ok # plan \<Rightarrow>
          if ok then (Suc (brk w), w\<lparr>alloc_plan := plan, brk := Suc (brk w)\<rparr>)
          else (NULL, w\<lparr>alloc_plan := plan\<rparr>))"

definition lv_malloc :: "nat \<Rightarrow> world \<Rightarrow> ptr \<times> world" where
  "lv_malloc n w = (case allocate w of (p, w1) \<Rightarrow> (p, log (Malloc n p) w1))"

definition lv_free :: "ptr \<Rightarrow> world \<Rightarrow> world" where
  "lv_free p w = log (Free p) w"

definition lv_draw_buf_malloc :: "nat \<Rightarrow> lv_color_format_t \<Rightarrow> world \<Rightarrow> ptr \<times> world" where
  "lv_draw_buf_malloc n color_format w =
     (case allocate w of (p, w1) \<Rightarrow> (p, log (DrawBufMalloc n p) w1))"

definition lv_draw_buf_free :: "ptr \<Rightarrow> world \<Rightarrow> world" where
  "lv_draw_buf_free p w = log (DrawBufFree p) w"

text \<open>
  Modelled from the spec: \<^verbatim>\<open>lv_strdup\<close>, which is not in this file. The specification's
  insert ``copies source into an owned string if it is a FilePath'' and ``fails only if
  the underlying allocation of the entry record fails'': the copy is a new string with
  the same characters, and making it does not fail.
\<close>

definition lv_strdup :: "ptr \<Rightarrow> world \<Rightarrow> ptr \<times> world" where
  "lv_strdup s w =
     (let q = Suc (brk w)
      in (q, log (Strdup s q) (w\<lparr>brk := q, cstr := (cstr w)(q := cstr w s)\<rparr>)))"

text \<open>
  What a log leaves allocated: the addresses it obtained and did not hand back.
\<close>

fun acquired :: "event \<Rightarrow> ptr list" where
  "acquired (Malloc n p) = (if p = NULL then [] else [p])"
| "acquired (DrawBufMalloc n p) = (if p = NULL then [] else [p])"
| "acquired (Strdup s q) = [q]"
| "acquired e = []"

fun released :: "event \<Rightarrow> ptr list" where
  "released (Free p) = [p]"
| "released (DrawBufFree p) = [p]"
| "released e = []"

definition unreleased :: "event list \<Rightarrow> ptr list" where
  "unreleased es =
     filter (\<lambda>p. p \<notin> set (concat (map released es))) (concat (map acquired es))"

subsubsection \<open>File system\<close>

definition lv_fs_open :: "ptr \<Rightarrow> world \<Rightarrow> lv_fs_file_t option \<times> world" where
  "lv_fs_open path w = (files w (cstr w path), log (FsOpen (cstr w path)) w)"

definition lv_fs_seek :: "lv_fs_file_t \<Rightarrow> lv_fs_whence_t \<Rightarrow> world \<Rightarrow> bool \<times> world" where
  "lv_fs_seek f whence w = (seek_ok f whence, log (FsSeek whence) w)"

definition lv_fs_tell :: "lv_fs_file_t \<Rightarrow> world \<Rightarrow> (bool \<times> u32) \<times> world" where
  "lv_fs_tell f w = ((tell_ok f, tell_pos f), log FsTell w)"

definition lv_fs_read :: "lv_fs_file_t \<Rightarrow> nat \<Rightarrow> world \<Rightarrow> (bool \<times> u8 list) \<times> world" where
  "lv_fs_read f btr w = ((read_ok f, take btr (bytes f)), log (FsRead btr) w)"

definition lv_fs_close :: "lv_fs_file_t \<Rightarrow> world \<Rightarrow> world" where
  "lv_fs_close f w = log FsClose w"

subsubsection \<open>Decode engine\<close>

text \<open>
  Engine calls made one after the other; \<open>True\<close> when one of them took \<^verbatim>\<open>error_exit\<close>,
  and then the calls after it were not made.
\<close>

fun jpeg_calls :: "jpeg_stream \<Rightarrow> jpeg_call list \<Rightarrow> world \<Rightarrow> bool \<times> world" where
  "jpeg_calls s [] w = (False, w)"
| "jpeg_calls s (c # cs) w =
     (if error_exit_in s c then (True, log (Jpeg c) w)
      else jpeg_calls s cs (log (Jpeg c) w))"

definition jpeg_destroy_decompress :: "world \<Rightarrow> world" where
  "jpeg_destroy_decompress w = log (Jpeg DestroyDecompress) w"

subsubsection \<open>Cache\<close>

text \<open>
  Modelled from the spec: the cache manager (\<^verbatim>\<open>lv_cache_lock\<close>, \<^verbatim>\<open>lv_cache_unlock\<close>,
  \<^verbatim>\<open>lv_cache_add\<close>, \<^verbatim>\<open>lv_cache_find_by_src\<close>, \<^verbatim>\<open>lv_cache_get_data\<close>), which is not in this
  file. Insert ``creates a new entry, takes ownership of buffer'' and ``publishes it
  into the index''; it ``fails only if the underlying allocation of the entry record
  fails''. Lookup is ``by identity equality (FilePath compared by string equality;
  InMemoryPointer by address equality). On hit, increments refCount and returns the
  entry.'' The code passes \<^verbatim>\<open>NULL\<close> for the entry to start after, so the lookup starts
  at the head of the list and that argument is left out.
\<close>

definition lv_cache_lock :: "world \<Rightarrow> world" where
  "lv_cache_lock w = log CacheLock w"

definition lv_cache_unlock :: "world \<Rightarrow> world" where
  "lv_cache_unlock w = log CacheUnlock w"

definition lv_cache_add :: "ptr \<Rightarrow> nat \<Rightarrow> u32 \<Rightarrow> nat \<Rightarrow> world \<Rightarrow> ptr \<times> world" where
  "lv_cache_add d dsize dtype usage w =
     (case allocate w of (p, w1) \<Rightarrow>
        if p = NULL then (NULL, log (CacheAdd NULL) w1)
        else
          (p, log (CacheAdd p)
                (w1\<lparr>entries := (entries w1)(p \<mapsto>
                        \<lparr>entry_data = d, entry_data_size = dsize, entry_data_type = dtype,
                         entry_memory_usage = usage, entry_weight = 0, entry_src = NULL,
                         entry_src_type = LV_CACHE_SRC_TYPE_PATH, entry_usage_count = 0,
                         entry_invalidate_cb = None\<rparr>),
                     entry_ll := p # entry_ll w1\<rparr>)))"

definition src_matches :: "world \<Rightarrow> ptr \<Rightarrow> lv_cache_src_type_t \<Rightarrow> lv_cache_entry_t \<Rightarrow> bool" where
  "src_matches w s t e \<longleftrightarrow>
     entry_src_type e = t \<and>
     (case t of
        LV_CACHE_SRC_TYPE_PATH \<Rightarrow> cstr w (entry_src e) = cstr w s
      | LV_CACHE_SRC_TYPE_POINTER \<Rightarrow> entry_src e = s)"

fun find_in :: "world \<Rightarrow> ptr \<Rightarrow> lv_cache_src_type_t \<Rightarrow> ptr list \<Rightarrow> ptr" where
  "find_in w s t [] = NULL"
| "find_in w s t (p # ps) =
     (case entries w p of
        None \<Rightarrow> find_in w s t ps
      | Some e \<Rightarrow> if src_matches w s t e then p else find_in w s t ps)"

definition lv_cache_find_by_src :: "ptr \<Rightarrow> lv_cache_src_type_t \<Rightarrow> world \<Rightarrow> ptr \<times> world" where
  "lv_cache_find_by_src s t w =
     (let p = find_in w s t (entry_ll w)
      in case entries w p of
           None \<Rightarrow> (NULL, log (CacheFind NULL) w)
         | Some e \<Rightarrow>
             if p = NULL then (NULL, log (CacheFind NULL) w)
             else (p, log (CacheFind p)
                        (w\<lparr>entries := (entries w)(p \<mapsto> e\<lparr>entry_usage_count := Suc (entry_usage_count e)\<rparr>)\<rparr>)))"

definition lv_cache_get_data :: "ptr \<Rightarrow> world \<Rightarrow> ptr" where
  "lv_cache_get_data p w = (case entries w p of None \<Rightarrow> NULL | Some e \<Rightarrow> entry_data e)"

text \<open>A field of the entry at \<open>p\<close> is written through the pointer.\<close>

definition entry_update :: "ptr \<Rightarrow> (lv_cache_entry_t \<Rightarrow> lv_cache_entry_t) \<Rightarrow> world \<Rightarrow> world" where
  "entry_update p f w =
     (case entries w p of
        None \<Rightarrow> w
      | Some e \<Rightarrow> w\<lparr>entries := (entries w)(p \<mapsto> f e)\<rparr>)"

subsection \<open>The functions of lv_libjpeg_turbo.c\<close>

subsubsection \<open>alloc_file\<close>

text \<open>
  Returns the buffer (its address, and the bytes it holds) and what is stored to
  \<^verbatim>\<open>*size\<close>; the address is \<^verbatim>\<open>NULL\<close> on every failure.
\<close>

definition alloc_file :: "ptr \<Rightarrow> world \<Rightarrow> (ptr \<times> u32 \<times> u8 list) \<times> world" where
  "alloc_file filename w0 =
     (case lv_fs_open filename w0 of
        (None, w1) \<Rightarrow> ((NULL, 0, []), w1)
      | (Some f, w1) \<Rightarrow>
          (case lv_fs_seek f LV_FS_SEEK_END w1 of (res, w2) \<Rightarrow>
           if \<not> res then ((NULL, 0, []), lv_fs_close f w2)
           else
             case lv_fs_tell f w2 of ((res, data_size), w3) \<Rightarrow>
             if \<not> res then ((NULL, 0, []), lv_fs_close f w3)
             else
               case lv_fs_seek f LV_FS_SEEK_SET w3 of (res, w4) \<Rightarrow>
               if \<not> res then ((NULL, 0, []), lv_fs_close f w4)
               else
                 case lv_malloc (unat data_size) w4 of (data, w5) \<Rightarrow>
                 if data = NULL then ((NULL, 0, []), lv_fs_close f w5)
                 else
                   case lv_fs_read f (unat data_size) w5 of ((res, bs), w6) \<Rightarrow>
                   let rn = (of_nat (length bs) :: u32)
                   in if res \<and> rn = data_size then ((data, rn, bs), lv_fs_close f w6)
                      else ((NULL, 0, []), lv_fs_close f (lv_free data w6))))"

subsubsection \<open>decode_jpeg_file\<close>

text \<open>
  The scanline loop: \<open>k\<close> is \<^verbatim>\<open>cinfo.output_scanline\<close>, which each successful
  \<^verbatim>\<open>jpeg_read_scanlines\<close> advances by the one line asked for. \<open>True\<close> when the engine
  took \<^verbatim>\<open>error_exit\<close>.
\<close>

function read_scanlines_loop ::
  "jpeg_stream \<Rightarrow> ptr \<Rightarrow> nat \<Rightarrow> nat \<Rightarrow> nat \<Rightarrow> world \<Rightarrow> bool \<times> world" where
  "read_scanlines_loop s cur_pos stride k output_height w =
     (if k < output_height then
        (case jpeg_calls s [ReadScanlines k] w of
           (True, w1) \<Rightarrow> (True, w1)
         | (False, w1) \<Rightarrow>
             read_scanlines_loop s (cur_pos + stride) stride (Suc k) output_height
               (log (Memcpy cur_pos stride) w1))
      else (False, w))"
  by pat_completeness auto
termination
  by (relation "measure (\<lambda>(s, cur_pos, stride, k, output_height, w). output_height - k)") auto

declare read_scanlines_loop.simps [simp del]

text \<open>
  The code of \<^verbatim>\<open>decode_jpeg_file\<close> from the point where \<^verbatim>\<open>setjmp\<close> has returned 0. The
  result says whether the engine jumped back, and gives the value last assigned to
  \<^verbatim>\<open>output_buffer\<close> (\<^verbatim>\<open>NULL\<close> before the assignment), \<^verbatim>\<open>*size\<close> and the world as they are
  at the jump or at the return. \<open>osize\<close> is what \<^verbatim>\<open>size\<close> points
  to, \<open>None\<close> when the pointer is \<^verbatim>\<open>NULL\<close>. The products are those of C on \<^verbatim>\<open>unsigned int\<close>
  (\<^verbatim>\<open>JDIMENSION\<close>), converted to \<^verbatim>\<open>size_t\<close> afterwards. The engine produces the image at
  the dimensions of its header: the code sets no scaling.
\<close>

definition output_size :: "u32 \<Rightarrow> u32 \<Rightarrow> nat" where
  "output_size output_width output_height =
     unat (output_width * output_height * JPEG_PIXEL_SIZE)"

definition decompress ::
  "jpeg_stream \<Rightarrow> ptr \<Rightarrow> nat option \<Rightarrow> world \<Rightarrow> bool \<times> ptr \<times> nat option \<times> world" where
  "decompress s data osize w0 =
     (case jpeg_calls s [CreateDecompress, MemSrc, ReadHeader, StartDecompress, AllocSarray] w0 of
        (True, w1) \<Rightarrow> (True, NULL, osize, w1)
      | (False, w1) \<Rightarrow>
          let output_width = image_width s;
              output_height = image_height s;
              output_buffer_size = output_size output_width output_height
          in case lv_draw_buf_malloc output_buffer_size LV_COLOR_FORMAT_RGB888 w1 of
               (output_buffer, w2) \<Rightarrow>
          (case
             (if output_buffer \<noteq> NULL then
                let stride = unat (output_width * JPEG_PIXEL_SIZE);
                    size1 = (if osize \<noteq> None then Some output_buffer_size else osize)
                in case read_scanlines_loop s output_buffer stride 0 (unat output_height) w2 of
                     (jumped, w3) \<Rightarrow> (jumped, size1, w3)
              else (False, osize, w2))
           of
             (True, size1, w3) \<Rightarrow> (True, output_buffer, size1, w3)
           | (False, size1, w3) \<Rightarrow>
               (case jpeg_calls s [FinishDecompress] w3 of
                  (True, w4) \<Rightarrow> (True, output_buffer, size1, w4)
                | (False, w4) \<Rightarrow>
                    (False, output_buffer, size1, lv_free data (jpeg_destroy_decompress w4)))))"

text \<open>
  \<^verbatim>\<open>decode_jpeg_file\<close>: the value returned and the final \<^verbatim>\<open>*size\<close>. In the branch taken
  when \<^verbatim>\<open>setjmp\<close> returns a second time, \<^verbatim>\<open>data\<close> has the value it had at the \<^verbatim>\<open>setjmp\<close>
  (it is not assigned afterwards) and \<^verbatim>\<open>*size\<close> is read from memory. \<^verbatim>\<open>output_buffer\<close> is
  still \<^verbatim>\<open>NULL\<close> when the jump comes before its assignment or when the allocation has
  returned \<^verbatim>\<open>NULL\<close>; once a buffer has been assigned to it, what the branch reads is
  indeterminate and given by \<open>longjmp_local\<close>.
\<close>

definition decode_jpeg_file :: "ptr \<Rightarrow> nat option \<Rightarrow> world \<Rightarrow> (ptr \<times> nat option) \<times> world" where
  "decode_jpeg_file filename osize w0 =
     (case alloc_file filename w0 of ((data, data_size, bs), w1) \<Rightarrow>
        if data = NULL then ((NULL, osize), w1)
        else
          (case decompress (codec w1 (take (unat data_size) bs)) data osize w1 of
             (True, assigned, size1, w2) \<Rightarrow>
               let output_buffer = (if assigned = NULL then NULL else longjmp_local w2 assigned);
                   w3 = (if output_buffer \<noteq> NULL then lv_draw_buf_free output_buffer w2 else w2)
               in ((NULL, size1), lv_free data (jpeg_destroy_decompress w3))
           | (False, output_buffer, size1, w2) \<Rightarrow> ((output_buffer, size1), w2)))"

subsubsection \<open>get_jpeg_size\<close>

text \<open>\<open>Some (width, height)\<close> when the function returns true, having stored both.\<close>

definition get_jpeg_size :: "ptr \<Rightarrow> world \<Rightarrow> (u32 \<times> u32) option \<times> world" where
  "get_jpeg_size filename w0 =
     (case alloc_file filename w0 of ((data, data_size, bs), w1) \<Rightarrow>
        if data = NULL then (None, w1)
        else
          (let s = codec w1 (take (unat data_size) bs)
           in case jpeg_calls s [CreateDecompress, MemSrc, ReadHeader] w1 of
                (True, w2) \<Rightarrow> (None, lv_free data (jpeg_destroy_decompress w2))
              | (False, w2) \<Rightarrow>
                  let ret = header_ret s;
                      w3 = lv_free data (jpeg_destroy_decompress w2)
                  in if ret = JPEG_HEADER_OK then (Some (image_width s, image_height s), w3)
                     else (None, w3)))"

subsubsection \<open>decoder_info\<close>

definition decoder_info ::
  "ptr \<Rightarrow> lv_image_header_t \<Rightarrow> world \<Rightarrow> lv_result_t \<times> lv_image_header_t \<times> world" where
  "decoder_info sp header w0 =
     (if image_src_type w0 sp = LV_IMAGE_SRC_FILE then
        (let fn = sp
         in case lv_fs_open fn w0 of
              (None, w1) \<Rightarrow> (LV_RESULT_INVALID, header, w1)
            | (Some f, w1) \<Rightarrow>
                (case lv_fs_read f 4 w1 of ((res, bs), w2) \<Rightarrow>
                 let jpg_signature = load_u32 (byte_order w2) bs;
                     rn = length bs;
                     w3 = lv_fs_close f w2
                 in if rn \<noteq> 4 then (LV_RESULT_INVALID, header, w3)
                    else if \<not> IS_JPEG_SIGNATURE jpg_signature then (LV_RESULT_INVALID, header, w3)
                    else
                      (case get_jpeg_size fn w3 of
                         (None, w4) \<Rightarrow> (LV_RESULT_INVALID, header, w4)
                       | (Some (width, height), w4) \<Rightarrow>
                           (LV_RESULT_OK,
                            header\<lparr>header_cf := LV_COLOR_FORMAT_RGB888, header_w := width,
                                   header_h := height\<rparr>, w4))))
      else (LV_RESULT_INVALID, header, w0))"

subsubsection \<open>cache_invalidate_cb\<close>

definition cache_invalidate_cb :: "lv_cache_entry_t \<Rightarrow> world \<Rightarrow> world" where
  "cache_invalidate_cb entry w0 =
     (let w1 = (if entry_src_type entry = LV_CACHE_SRC_TYPE_PATH
                then lv_free (entry_src entry) w0 else w0)
      in lv_free (entry_data entry) w1)"

subsubsection \<open>try_cache and decoder_open\<close>

definition try_cache ::
  "lv_image_decoder_dsc_t \<Rightarrow> world \<Rightarrow> lv_result_t \<times> lv_image_decoder_dsc_t \<times> world" where
  "try_cache dsc w0 =
     (let w1 = lv_cache_lock w0
      in if src_type dsc = LV_IMAGE_SRC_FILE then
           (let fn = src dsc
            in case lv_cache_find_by_src fn LV_CACHE_SRC_TYPE_PATH w1 of (cache, w2) \<Rightarrow>
                 if cache \<noteq> NULL then
                   (LV_RESULT_OK,
                    dsc\<lparr>img_data := lv_cache_get_data cache w2, cache_entry := cache\<rparr>,
                    lv_cache_unlock w2)
                 else (LV_RESULT_INVALID, dsc, lv_cache_unlock w2))
         else (LV_RESULT_INVALID, dsc, lv_cache_unlock w1))"

definition decoder_open ::
  "lv_image_decoder_t \<Rightarrow> lv_image_decoder_dsc_t \<Rightarrow> world \<Rightarrow>
     lv_result_t \<times> lv_image_decoder_dsc_t \<times> world" where
  "decoder_open decoder dsc0 w0 =
     (case try_cache dsc0 w0 of
        (LV_RESULT_OK, dsc, w1) \<Rightarrow> (LV_RESULT_OK, dsc, w1)
      | (LV_RESULT_INVALID, dsc, w1) \<Rightarrow>
          if src_type dsc = LV_IMAGE_SRC_FILE then
            (let fn = src dsc
             in case decode_jpeg_file fn (Some 0) w1 of ((decoded_img, osize), w2) \<Rightarrow>
                let decoded_size = (case osize of None \<Rightarrow> 0 | Some n \<Rightarrow> n);
                    t = decode_ticks w2;
                    w3 = lv_cache_lock w2
                in case lv_cache_add decoded_img decoded_size (cache_data_type decoder)
                          decoded_size w3 of (cache, w4) \<Rightarrow>
                   if cache = NULL then (LV_RESULT_INVALID, dsc, lv_cache_unlock w4)
                   else
                     let w5 = entry_update cache
                                (\<lambda>e. e\<lparr>entry_weight := t, entry_invalidate_cb := Some CACHE_INVALIDATE_CB\<rparr>) w4;
                         w6 = (if src_type dsc = LV_IMAGE_SRC_FILE then
                                 (case lv_strdup (src dsc) w5 of (q, w') \<Rightarrow>
                                    entry_update cache
                                      (\<lambda>e. e\<lparr>entry_src := q,
                                              entry_src_type := LV_CACHE_SRC_TYPE_PATH\<rparr>) w')
                               else
                                 entry_update cache
                                   (\<lambda>e. e\<lparr>entry_src_type := LV_CACHE_SRC_TYPE_POINTER,
                                           entry_src := src dsc\<rparr>) w5)
                     in (LV_RESULT_OK,
                         dsc\<lparr>img_data := lv_cache_get_data cache w6, cache_entry := cache\<rparr>,
                         lv_cache_unlock w6))
          else (LV_RESULT_INVALID, dsc, w1))"

subsection \<open>Auxiliary definitions for the proofs\<close>

text \<open>The three low bytes of a 32-bit value, lowest first.\<close>

definition pack3 :: "u8 \<Rightarrow> u8 \<Rightarrow> u8 \<Rightarrow> u32" where
  "pack3 a b c = ucast a OR push_bit 8 (ucast b) OR push_bit 16 (ucast c)"

text \<open>
  What the file system, the engine and the allocator leave alone: everything but the
  allocation plan, the last address and the log; addresses only grow and the plan only
  gets shorter.
\<close>

definition frame :: "world \<Rightarrow> world \<Rightarrow> bool" where
  "frame w w' \<longleftrightarrow>
     files w' = files w \<and> codec w' = codec w \<and> byte_order w' = byte_order w \<and>
     image_src_type w' = image_src_type w \<and> decode_ticks w' = decode_ticks w \<and>
     longjmp_local w' = longjmp_local w \<and> cstr w' = cstr w \<and> entries w' = entries w \<and> entry_ll w' = entry_ll w \<and>
     brk w \<le> brk w' \<and> length (alloc_plan w') \<le> length (alloc_plan w)"

subsection \<open>Sample worlds\<close>

text \<open>
  A file that every driver call serves, an engine that takes \<^verbatim>\<open>error_exit\<close> in the
  listed calls, and a world with the one file \<^verbatim>\<open>A:/a.jpg\<close>, whose name is the C string
  at address 1, an empty cache and an empty log. In it a local variable keeps the value
  last assigned across a \<^verbatim>\<open>longjmp\<close>, as in code that holds the variable in memory.
\<close>

definition sample_file :: "u8 list \<Rightarrow> lv_fs_file_t" where
  "sample_file bs =
     \<lparr>seek_ok = (\<lambda>whence. True), tell_ok = True, tell_pos = of_nat (length bs),
      read_ok = True, bytes = bs\<rparr>"

definition sample_stream :: "jpeg_call list \<Rightarrow> u32 \<Rightarrow> u32 \<Rightarrow> jpeg_stream" where
  "sample_stream bad wd ht =
     \<lparr>error_exit_in = (\<lambda>c. c \<in> set bad), header_ret = JPEG_HEADER_OK,
      image_width = wd, image_height = ht\<rparr>"

definition sample_world :: "endian \<Rightarrow> u8 list \<Rightarrow> jpeg_stream \<Rightarrow> bool list \<Rightarrow> world" where
  "sample_world e bs s plan =
     \<lparr>files = (\<lambda>name. if name = ''A:/a.jpg'' then Some (sample_file bs) else None),
      codec = (\<lambda>input. s),
      byte_order = e,
      image_src_type = (\<lambda>p. if p = 1 then LV_IMAGE_SRC_FILE else LV_IMAGE_SRC_VARIABLE),
      decode_ticks = 7,
      longjmp_local = (\<lambda>p. p),
      alloc_plan = plan,
      brk = 1,
      cstr = (\<lambda>p. if p = 1 then ''A:/a.jpg'' else []),
      entries = (\<lambda>p. None),
      entry_ll = [],
      trace = []\<rparr>"

definition valid_world :: world where
  "valid_world = sample_world LittleEndian [0xFF, 0xD8, 0xFF, 0xE0] (sample_stream [] 2 2) []"

definition header_error_world :: world where
  "header_error_world =
     sample_world LittleEndian [0xFF, 0xD8, 0xFF, 0xE0] (sample_stream [ReadHeader] 2 2) []"

definition scanline_error_world :: world where
  "scanline_error_world =
     sample_world LittleEndian [0xFF, 0xD8, 0xFF, 0xE0] (sample_stream [ReadScanlines 1] 2 2) []"

text \<open>
  The same file and engine on a target whose compiled code holds \<^verbatim>\<open>output_buffer\<close> in a
  register that \<^verbatim>\<open>longjmp\<close> restores: after the jump the variable is \<^verbatim>\<open>NULL\<close> again, as
  it was at the \<^verbatim>\<open>setjmp\<close>.
\<close>

definition scanline_error_restored_world :: world where
  "scanline_error_restored_world = scanline_error_world\<lparr>longjmp_local := (\<lambda>p. NULL)\<rparr>"

text \<open>
  A world whose file holds an image of 40000 by 40000 pixels in which the engine takes
  \<^verbatim>\<open>error_exit\<close> in the read of the first scanline.
\<close>

definition huge_scanline_error_world :: world where
  "huge_scanline_error_world =
     sample_world LittleEndian [0xFF, 0xD8, 0xFF, 0xE0]
       (sample_stream [ReadScanlines 0] 40000 40000) []"

definition sample_dsc :: lv_image_decoder_dsc_t where
  "sample_dsc = \<lparr>src = 1, src_type = LV_IMAGE_SRC_FILE, img_data = NULL, cache_entry = NULL\<rparr>"

definition sample_decoder :: lv_image_decoder_t where
  "sample_decoder = \<lparr>cache_data_type = 1\<rparr>"

definition sample_header :: lv_image_header_t where
  "sample_header = \<lparr>header_cf = LV_COLOR_FORMAT_UNKNOWN, header_w = 0, header_h = 0\<rparr>"

definition sample_entry :: "lv_cache_src_type_t \<Rightarrow> lv_cache_entry_t" where
  "sample_entry t =
     \<lparr>entry_data = 3, entry_data_size = 12, entry_data_type = 1, entry_memory_usage = 12,
      entry_weight = 7, entry_src = 5, entry_src_type = t, entry_usage_count = 0,
      entry_invalidate_cb = Some CACHE_INVALIDATE_CB\<rparr>"

text \<open>
  The valid world in which the fourth allocation request fails: after an inspect, which
  makes one request, the one that \<^verbatim>\<open>lv_cache_add\<close> makes for the entry in an open, after
  those for the file buffer and the output buffer.
\<close>

definition insert_failure_world :: world where
  "insert_failure_world =
     sample_world LittleEndian [0xFF, 0xD8, 0xFF, 0xE0] (sample_stream [] 2 2)
       [True, True, True, False]"

text \<open>A world whose file holds an image of 40000 by 40000 pixels.\<close>

definition huge_image_world :: world where
  "huge_image_world =
     sample_world LittleEndian [0xFF, 0xD8, 0xFF, 0xE0] (sample_stream [] 40000 40000) []"

text \<open>The valid world with one entry in the cache, identified by pointer, at address 9.\<close>

definition pointer_entry_world :: world where
  "pointer_entry_world =
     valid_world\<lparr>brk := 9,
       entries := (\<lambda>p. if p = 9 then Some (sample_entry LV_CACHE_SRC_TYPE_POINTER) else None),
       entry_ll := [9]\<rparr>"


text \<open>Events of the engine at work: they obtain nothing and hand nothing back.\<close>

fun engine_work :: "event \<Rightarrow> bool" where
  "engine_work (Jpeg c) = (c \<noteq> DestroyDecompress)"
| "engine_work (Memcpy p n) = True"
| "engine_work e = False"

text \<open>
  The engine calls that \<^verbatim>\<open>decode_jpeg_file\<close> makes before it allocates the output
  buffer.
\<close>

definition first_calls :: "jpeg_call list" where
  "first_calls = [CreateDecompress, MemSrc, ReadHeader, StartDecompress, AllocSarray]"

text \<open>
  For a call of \<^verbatim>\<open>decode_jpeg_file\<close> or \<^verbatim>\<open>get_jpeg_size\<close> on \<open>filename\<close> in \<open>w\<close>: the
  address of the buffer that \<^verbatim>\<open>alloc_file\<close> returns, the world it leaves, and the
  engine's behaviour on the bytes it has loaded.
\<close>

definition loaded_data :: "ptr \<Rightarrow> world \<Rightarrow> ptr" where
  "loaded_data filename w = fst (fst (alloc_file filename w))"

definition after_load :: "ptr \<Rightarrow> world \<Rightarrow> world" where
  "after_load filename w = snd (alloc_file filename w)"

definition loaded_stream :: "ptr \<Rightarrow> world \<Rightarrow> jpeg_stream" where
  "loaded_stream filename w =
     (case alloc_file filename w of
        ((data, data_size, bs), w1) \<Rightarrow> codec w1 (take (unat data_size) bs))"

text \<open>The entry that the miss path of \<^verbatim>\<open>decoder_open\<close> leaves in the cache.\<close>

definition inserted_entry :: "lv_image_decoder_t \<Rightarrow> world \<Rightarrow> ptr \<Rightarrow> nat \<Rightarrow> ptr \<Rightarrow> lv_cache_entry_t" where
  "inserted_entry decoder w img n q =
     \<lparr>entry_data = img, entry_data_size = n, entry_data_type = cache_data_type decoder,
      entry_memory_usage = n, entry_weight = decode_ticks w, entry_src = q,
      entry_src_type = LV_CACHE_SRC_TYPE_PATH, entry_usage_count = 0,
      entry_invalidate_cb = Some CACHE_INVALIDATE_CB\<rparr>"

text \<open>The world that a call of \<^verbatim>\<open>decoder_open\<close> leaves.\<close>

definition after_open :: "lv_image_decoder_t \<Rightarrow> lv_image_decoder_dsc_t \<Rightarrow> world \<Rightarrow> world" where
  "after_open decoder dsc w = snd (snd (decoder_open decoder dsc w))"

text \<open>The world that a call of \<^verbatim>\<open>decoder_info\<close> leaves.\<close>

definition after_info :: "ptr \<Rightarrow> lv_image_header_t \<Rightarrow> world \<Rightarrow> world" where
  "after_info sp header w = snd (snd (decoder_info sp header w))"

section \<open>Properties\<close>

subsection \<open>Basic facts\<close>

lemma log_fields [simp]:
  "trace (log e w) = trace w @ [e]"
  "files (log e w) = files w" "codec (log e w) = codec w" "byte_order (log e w) = byte_order w"
  "image_src_type (log e w) = image_src_type w" "decode_ticks (log e w) = decode_ticks w"
  "longjmp_local (log e w) = longjmp_local w"
  "alloc_plan (log e w) = alloc_plan w" "brk (log e w) = brk w" "cstr (log e w) = cstr w"
  "entries (log e w) = entries w" "entry_ll (log e w) = entry_ll w"
  by (simp_all add: log_def)

lemma frame_refl [simp]: "frame w w"
  by (simp add: frame_def)

lemma frame_trans: "frame w w1 \<Longrightarrow> frame w1 w2 \<Longrightarrow> frame w w2"
  by (auto simp add: frame_def)

lemma frame_log [simp]: "frame w (log e w1) \<longleftrightarrow> frame w w1"
  by (simp add: frame_def)

lemma allocateD:
  "allocate w = (p, w1) \<Longrightarrow>
     w1 = w\<lparr>alloc_plan := tl (alloc_plan w), brk := (if p = NULL then brk w else Suc (brk w))\<rparr>
     \<and> (p = NULL \<or> p = Suc (brk w))"
  by (auto simp add: allocate_def split: list.splits if_splits)

subsection \<open>The signature check\<close>

lemma and_mask24: "(x::u32) AND 0x00FFFFFF = take_bit 24 x"
proof -
  have "(0x00FFFFFF::u32) = mask 24" by (simp add: mask_eq_exp_minus_1)
  then show ?thesis by (simp add: take_bit_eq_mask)
qed

lemma le_low24:
  "take_bit 24 (u32_of_bytes LittleEndian b0 b1 b2 b3) = pack3 b0 b1 b2"
  unfolding u32_of_bytes_def pack3_def
  by (rule bit_word_eqI) (auto simp add: bit_simps dest: bit_imp_le_length)

lemma be_low24:
  "take_bit 24 (u32_of_bytes BigEndian b0 b1 b2 b3) = pack3 b3 b2 b1"
  unfolding u32_of_bytes_def pack3_def
  by (rule bit_word_eqI) (auto simp add: bit_simps dest: bit_imp_le_length)

lemma pack3_byte0: "ucast (pack3 a b c) = a"
  unfolding pack3_def
  by (rule bit_word_eqI) (auto simp add: bit_simps dest: bit_imp_le_length)

lemma pack3_byte1: "ucast (drop_bit 8 (pack3 a b c)) = b"
  unfolding pack3_def
  by (rule bit_word_eqI) (auto simp add: bit_simps dest: bit_imp_le_length)

lemma pack3_byte2: "ucast (drop_bit 16 (pack3 a b c)) = c"
  unfolding pack3_def
  by (rule bit_word_eqI) (auto simp add: bit_simps dest: bit_imp_le_length)

lemma pack3_eq_sig:
  "pack3 a b c = 0xFFD8FF \<longleftrightarrow> a = 0xFF \<and> b = 0xD8 \<and> c = 0xFF"
proof
  assume eq: "pack3 a b c = 0xFFD8FF"
  have "a = ucast (pack3 a b c)" by (simp add: pack3_byte0)
  also have "\<dots> = 0xFF" unfolding eq by simp
  finally have a: "a = 0xFF" .
  have "b = ucast (drop_bit 8 (pack3 a b c))" by (simp add: pack3_byte1)
  also have "\<dots> = 0xD8" unfolding eq by simp
  finally have b: "b = 0xD8" .
  have "c = ucast (drop_bit 16 (pack3 a b c))" by (simp add: pack3_byte2)
  also have "\<dots> = 0xFF" unfolding eq by simp
  finally have c: "c = 0xFF" .
  from a b c show "a = 0xFF \<and> b = 0xD8 \<and> c = 0xFF" by simp
next
  assume "a = 0xFF \<and> b = 0xD8 \<and> c = 0xFF"
  then show "pack3 a b c = 0xFFD8FF" by (simp add: pack3_def)
qed

lemma IS_JPEG_SIGNATURE_bytes:
  "IS_JPEG_SIGNATURE (u32_of_bytes e b0 b1 b2 b3) \<longleftrightarrow>
     (case e of
        LittleEndian \<Rightarrow> b0 = 0xFF \<and> b1 = 0xD8 \<and> b2 = 0xFF
      | BigEndian \<Rightarrow> b1 = 0xFF \<and> b2 = 0xD8 \<and> b3 = 0xFF)"
proof (cases e)
  case LittleEndian
  then show ?thesis
    by (simp add: IS_JPEG_SIGNATURE_def JPEG_SIGNATURE_def and_mask24 le_low24 pack3_eq_sig)
next
  case BigEndian
  then show ?thesis
    by (auto simp add: IS_JPEG_SIGNATURE_def JPEG_SIGNATURE_def and_mask24 be_low24 pack3_eq_sig)
qed

text \<open>
  C4, as the code has it. \<^verbatim>\<open>decoder_info\<close> applies \<^verbatim>\<open>IS_JPEG_SIGNATURE\<close> to the four
  bytes as the target stores them in a \<^verbatim>\<open>uint32_t\<close>. The check accepts exactly when the
  low 24 bits of that native value are \<open>0xFFD8FF\<close>: on a little-endian target when
  the first three bytes of the file are \<open>FF D8 FF\<close>, on a big-endian target when the
  last three of the four are. It returns false on every other input.
\<close>

theorem signature_check_native_order:
  "IS_JPEG_SIGNATURE (load_u32 e [b0, b1, b2, b3]) \<longleftrightarrow>
     (case e of
        LittleEndian \<Rightarrow> b0 = 0xFF \<and> b1 = 0xD8 \<and> b2 = 0xFF
      | BigEndian \<Rightarrow> b1 = 0xFF \<and> b2 = 0xD8 \<and> b3 = 0xFF)"
  by (simp add: IS_JPEG_SIGNATURE_bytes)

text \<open>
  C4, as the specification words it, fails on a little-endian target: the bytes
  \<open>FF D8 FF E0\<close> are accepted, while the low 24 bits of their big-endian reading
  \<open>0xFFD8FFE0\<close> are \<open>0xD8FFE0\<close>, not the marker.
\<close>

theorem signature_check_not_big_endian:
  "\<not> (IS_JPEG_SIGNATURE (load_u32 LittleEndian [0xFF, 0xD8, 0xFF, 0xE0]) \<longleftrightarrow>
        be32 0xFF 0xD8 0xFF 0xE0 AND 0x00FFFFFF = JPEG_SIGNATURE)"
  by (simp add: IS_JPEG_SIGNATURE_def be32_def u32_of_bytes_def JPEG_SIGNATURE_def)

subsection \<open>The invalidate callback\<close>

text \<open>
  C8. The calls of \<^verbatim>\<open>lv_free\<close> that \<^verbatim>\<open>cache_invalidate_cb\<close> makes are: one on the
  entry's \<^verbatim>\<open>src\<close>, exactly when the entry's source type is \<^verbatim>\<open>LV_CACHE_SRC_TYPE_PATH\<close>,
  and then one on its \<^verbatim>\<open>data\<close>, always. For an entry identified by pointer the source
  pointer is not freed (the only call is the one on \<^verbatim>\<open>data\<close>).
\<close>

theorem invalidate_cb_frees:
  "new_events w (cache_invalidate_cb entry w) =
     (if entry_src_type entry = LV_CACHE_SRC_TYPE_PATH then [Free (entry_src entry)] else [])
       @ [Free (entry_data entry)]
   \<and> (entry_src_type entry = LV_CACHE_SRC_TYPE_POINTER \<and> entry_src entry \<noteq> entry_data entry
        \<longrightarrow> Free (entry_src entry) \<notin> set (new_events w (cache_invalidate_cb entry w)))"
  by (simp add: cache_invalidate_cb_def lv_free_def new_events_def)

theorem invalidate_cb_frees_witness:
  "new_events (sample_world LittleEndian [] (sample_stream [] 2 2) [])
      (cache_invalidate_cb (sample_entry LV_CACHE_SRC_TYPE_POINTER)
         (sample_world LittleEndian [] (sample_stream [] 2 2) [])) = [Free 3]
   \<and> new_events (sample_world LittleEndian [] (sample_stream [] 2 2) [])
      (cache_invalidate_cb (sample_entry LV_CACHE_SRC_TYPE_PATH)
         (sample_world LittleEndian [] (sample_stream [] 2 2) [])) = [Free 5, Free 3]
   \<and> Free 5 \<notin> set (new_events (sample_world LittleEndian [] (sample_stream [] 2 2) [])
      (cache_invalidate_cb (sample_entry LV_CACHE_SRC_TYPE_POINTER)
         (sample_world LittleEndian [] (sample_stream [] 2 2) [])))"
  using invalidate_cb_frees [of "sample_world LittleEndian [] (sample_stream [] 2 2) []"
          "sample_entry LV_CACHE_SRC_TYPE_POINTER"]
        invalidate_cb_frees [of "sample_world LittleEndian [] (sample_stream [] 2 2) []"
          "sample_entry LV_CACHE_SRC_TYPE_PATH"]
  by (simp add: sample_entry_def)

subsection \<open>Evaluation of the sample worlds\<close>

lemmas sample_defs =
  sample_file_def sample_stream_def sample_world_def sample_dsc_def sample_decoder_def
  sample_header_def sample_entry_def valid_world_def header_error_world_def
  scanline_error_world_def pointer_entry_world_def insert_failure_world_def
  huge_image_world_def scanline_error_restored_world_def huge_scanline_error_world_def

lemmas prim_defs =
  log_def allocate_def lv_malloc_def lv_free_def lv_draw_buf_malloc_def lv_draw_buf_free_def
  lv_strdup_def lv_fs_open_def lv_fs_seek_def lv_fs_tell_def lv_fs_read_def lv_fs_close_def
  jpeg_destroy_decompress_def lv_cache_lock_def lv_cache_unlock_def lv_cache_add_def
  src_matches_def lv_cache_find_by_src_def lv_cache_get_data_def entry_update_def

lemmas run_defs =
  new_events_def decode_jpeg_file_def decompress_def alloc_file_def get_jpeg_size_def
  loaded_data_def after_load_def loaded_stream_def output_size_def JPEG_PIXEL_SIZE_def
  read_scanlines_loop.simps Let_def

lemmas open_defs = decoder_open_def try_cache_def find_in.simps

lemmas info_defs = decoder_info_def after_info_def IS_JPEG_SIGNATURE_def JPEG_SIGNATURE_def
  u32_of_bytes_def

subsection \<open>The signature check inside decoder_info\<close>




subsection \<open>What a run of the engine leaves in the log\<close>

lemma jpeg_calls_sound:
  assumes "jpeg_calls s cs w = (j, w1)" and "DestroyDecompress \<notin> set cs"
  shows "frame w w1 \<and> alloc_plan w1 = alloc_plan w \<and> brk w1 = brk w \<and>
         (\<exists>es. trace w1 = trace w @ es \<and> list_all engine_work es) \<and>
         (j \<longleftrightarrow> (\<exists>c\<in>set cs. error_exit_in s c))"
  using assms
proof (induction cs arbitrary: w)
  case Nil
  then show ?case by simp
next
  case (Cons c cs)
  show ?case
  proof (cases "error_exit_in s c")
    case True
    with Cons.prems show ?thesis by auto
  next
    case False
    with Cons.prems have rec: "jpeg_calls s cs (log (Jpeg c) w) = (j, w1)"
      and nd: "DestroyDecompress \<notin> set cs" and c: "c \<noteq> DestroyDecompress"
      by auto
    from Cons.IH [OF rec nd] False c show ?thesis
      by (auto simp add: frame_def)
  qed
qed

lemma read_scanlines_loop_sound:
  "read_scanlines_loop s cur stride k h w = (j, w1) \<Longrightarrow>
     frame w w1 \<and> alloc_plan w1 = alloc_plan w \<and> brk w1 = brk w \<and>
     (\<exists>es. trace w1 = trace w @ es \<and> list_all engine_work es) \<and>
     (j \<longleftrightarrow> (\<exists>i. k \<le> i \<and> i < h \<and> error_exit_in s (ReadScanlines i)))"
proof (induction s cur stride k h w rule: read_scanlines_loop.induct)
  case (1 s cur_pos stride k output_height w)
  show ?case
  proof (cases "k < output_height")
    case False
    with "1.prems" show ?thesis
      by (simp add: read_scanlines_loop.simps [of s cur_pos stride k output_height w])
  next
    case True
    note kh = True
    show ?thesis
    proof (cases "error_exit_in s (ReadScanlines k)")
      case True
      with kh "1.prems" show ?thesis
        by (auto simp add: read_scanlines_loop.simps [of s cur_pos stride k output_height w])
    next
      case False
      with kh "1.prems"
      have rec: "read_scanlines_loop s (cur_pos + stride) stride (Suc k) output_height
                   (log (Memcpy cur_pos stride) (log (Jpeg (ReadScanlines k)) w)) = (j, w1)"
        by (simp add: read_scanlines_loop.simps [of s cur_pos stride k output_height w])
      have call: "jpeg_calls s [ReadScanlines k] w = (False, log (Jpeg (ReadScanlines k)) w)"
        using False by simp
      from "1.IH" [OF kh call [symmetric] refl rec]
      have ih: "frame (log (Memcpy cur_pos stride) (log (Jpeg (ReadScanlines k)) w)) w1"
        "alloc_plan w1 = alloc_plan w" "brk w1 = brk w"
        "\<exists>es. trace w1 = trace w @ [Jpeg (ReadScanlines k), Memcpy cur_pos stride] @ es
               \<and> list_all engine_work es"
        "j \<longleftrightarrow> (\<exists>i. Suc k \<le> i \<and> i < output_height \<and> error_exit_in s (ReadScanlines i))"
        by auto
      from ih(1) have "frame w w1" by (simp add: frame_def)
      moreover from ih(4) have "\<exists>es. trace w1 = trace w @ es \<and> list_all engine_work es"
        by auto
      moreover have "j \<longleftrightarrow> (\<exists>i. k \<le> i \<and> i < output_height \<and> error_exit_in s (ReadScanlines i))"
        using ih(5) False by (metis Suc_leD Suc_leI le_neq_implies_less)
      ultimately show ?thesis using ih(2,3) by simp
    qed
  qed
qed

lemma allocate_cong:
  "alloc_plan w1 = alloc_plan w \<Longrightarrow> brk w1 = brk w \<Longrightarrow> fst (allocate w1) = fst (allocate w)"
  by (auto simp add: allocate_def split: list.splits)

lemma frame_allocate: "allocate w = (p, w1) \<Longrightarrow> frame w w1 \<and> trace w1 = trace w"
  by (auto simp add: allocate_def frame_def split: list.splits if_splits)


lemma decompress_sound:
  assumes run: "decompress s data osize w = (j, ob, sz, w2)"
  shows "frame w w2 \<and>
     (\<exists>es1 am es2. list_all engine_work es1 \<and> list_all engine_work es2 \<and>
        (am = [] \<and> ob = NULL \<or> (\<exists>n. am = [DrawBufMalloc n ob])) \<and>
        trace w2 = trace w @ es1 @ am @ es2 @
          (if j then [] else [Jpeg DestroyDecompress, Free data])) \<and>
     (j \<longleftrightarrow> (\<exists>c\<in>set first_calls. error_exit_in s c) \<or>
            (fst (allocate w) \<noteq> NULL \<and>
              (\<exists>i. i < unat (image_height s) \<and> error_exit_in s (ReadScanlines i))) \<or>
            error_exit_in s FinishDecompress) \<and>
     ob = (if \<exists>c\<in>set first_calls. error_exit_in s c then NULL else fst (allocate w)) \<and>
     sz = (if (\<exists>c\<in>set first_calls. error_exit_in s c) \<or> fst (allocate w) = NULL \<or> osize = None
           then osize else Some (output_size (image_width s) (image_height s)))"
proof -
  obtain j1 w1 where c1: "jpeg_calls s first_calls w = (j1, w1)"
    by (cases "jpeg_calls s first_calls w")
  from jpeg_calls_sound [OF c1]
  have f1: "frame w w1" and a1: "alloc_plan w1 = alloc_plan w" and b1: "brk w1 = brk w"
    and j1: "j1 \<longleftrightarrow> (\<exists>c\<in>set first_calls. error_exit_in s c)"
    and t1: "\<exists>es. trace w1 = trace w @ es \<and> list_all engine_work es"
    by (auto simp add: first_calls_def)
  from t1 obtain es1 where es1: "trace w1 = trace w @ es1" "list_all engine_work es1" by blast
  have c1': "jpeg_calls s [CreateDecompress, MemSrc, ReadHeader, StartDecompress, AllocSarray] w
               = (j1, w1)"
    using c1 by (simp add: first_calls_def)
  show ?thesis
  proof (cases j1)
    case True
    with run c1' have "j" "ob = NULL" "sz = osize" "w2 = w1"
      by (simp_all add: decompress_def del: jpeg_calls.simps)
    have "\<exists>es1 am es2. list_all engine_work es1 \<and> list_all engine_work es2 \<and>
        (am = [] \<and> ob = NULL \<or> (\<exists>n. am = [DrawBufMalloc n ob])) \<and>
        trace w2 = trace w @ es1 @ am @ es2 @
          (if j then [] else [Jpeg DestroyDecompress, Free data])"
      using \<open>j\<close> \<open>ob = NULL\<close> \<open>w2 = w1\<close> es1
      by (intro exI [of _ es1] exI [of _ "[]"]) simp
    with True f1 j1 \<open>j\<close> \<open>ob = NULL\<close> \<open>sz = osize\<close> \<open>w2 = w1\<close> show ?thesis
      by auto
  next
    case False
    note nj1 = False
    obtain p wa where al: "allocate w1 = (p, wa)" by (cases "allocate w1")
    have p: "p = fst (allocate w)" using al allocate_cong [OF a1 b1] by simp
    define n where "n = output_size (image_width s) (image_height s)"
    define wb where "wb = log (DrawBufMalloc n p) wa"
    have fb: "frame w wb" and tb: "trace wb = trace w @ es1 @ [DrawBufMalloc n p]"
      using frame_allocate [OF al] f1 es1 by (auto simp add: wb_def frame_def)
    have mal: "lv_draw_buf_malloc n LV_COLOR_FORMAT_RGB888 w1 = (p, wb)"
      by (simp add: lv_draw_buf_malloc_def al wb_def)
    show ?thesis
    proof (cases "p = NULL")
      case True
      obtain j3 w4 where c3: "jpeg_calls s [FinishDecompress] wb = (j3, w4)"
        by (cases "jpeg_calls s [FinishDecompress] wb")
      from jpeg_calls_sound [OF c3]
      have f3: "frame wb w4" and j3: "j3 \<longleftrightarrow> error_exit_in s FinishDecompress"
        and t3: "\<exists>es. trace w4 = trace wb @ es \<and> list_all engine_work es"
        by auto
      from t3 obtain es3 where es3: "trace w4 = trace wb @ es3" "list_all engine_work es3"
        by blast
      from run c1' nj1 mal True c3
      have res: "j = j3" "ob = NULL" "sz = osize"
        "w2 = (if j3 then w4 else lv_free data (jpeg_destroy_decompress w4))"
        by (auto simp add: decompress_def n_def Let_def simp del: jpeg_calls.simps
              split: if_splits bool.splits)
      have "frame w w2" using res f3 fb
        by (auto simp add: frame_def lv_free_def jpeg_destroy_decompress_def)
      moreover have "trace w2 = trace w @ es1 @ [DrawBufMalloc n ob] @ es3 @
          (if j then [] else [Jpeg DestroyDecompress, Free data])"
        using res es3 tb True by (simp add: lv_free_def jpeg_destroy_decompress_def)
      moreover have "\<exists>es1 am es2. list_all engine_work es1 \<and> list_all engine_work es2 \<and>
        (am = [] \<and> ob = NULL \<or> (\<exists>n. am = [DrawBufMalloc n ob])) \<and>
        trace w2 = trace w @ es1 @ am @ es2 @
          (if j then [] else [Jpeg DestroyDecompress, Free data])"
        using calculation(2) es1(2) es3(2)
        by (intro exI [of _ es1] exI [of _ "[DrawBufMalloc n ob]"] exI [of _ es3]) simp
      ultimately show ?thesis
        using res j3 j1 nj1 p True
        by auto
    next
      case False
      define stride where "stride = unat (image_width s * JPEG_PIXEL_SIZE)"
      obtain j2 w3 where c2:
        "read_scanlines_loop s p stride 0 (unat (image_height s)) wb = (j2, w3)"
        by (cases "read_scanlines_loop s p stride 0 (unat (image_height s)) wb")
      from read_scanlines_loop_sound [OF c2]
      have f2: "frame wb w3"
        and j2: "j2 \<longleftrightarrow> (\<exists>i. i < unat (image_height s) \<and> error_exit_in s (ReadScanlines i))"
        and t2: "\<exists>es. trace w3 = trace wb @ es \<and> list_all engine_work es"
        by auto
      from t2 obtain es2 where es2: "trace w3 = trace wb @ es2" "list_all engine_work es2"
        by blast
      obtain j3 w4 where c3: "jpeg_calls s [FinishDecompress] w3 = (j3, w4)"
        by (cases "jpeg_calls s [FinishDecompress] w3")
      from jpeg_calls_sound [OF c3]
      have f3: "frame w3 w4" and j3: "j3 \<longleftrightarrow> error_exit_in s FinishDecompress"
        and t3: "\<exists>es. trace w4 = trace w3 @ es \<and> list_all engine_work es"
        by auto
      from t3 obtain es3 where es3: "trace w4 = trace w3 @ es3" "list_all engine_work es3"
        by blast
      from run c1' nj1 mal False c2 c3
      have res: "j = (j2 \<or> j3)" "ob = p"
        "sz = (if osize \<noteq> None then Some n else osize)"
        "w2 = (if j2 then w3 else if j3 then w4 else lv_free data (jpeg_destroy_decompress w4))"
        by (auto simp add: decompress_def n_def stride_def Let_def simp del: jpeg_calls.simps
              split: if_splits bool.splits)
      have fr: "frame w w2" using res f2 f3 fb
        by (auto simp add: frame_def lv_free_def jpeg_destroy_decompress_def)
      have tr: "trace w2 = trace w @ es1 @ [DrawBufMalloc n ob] @
          (if j2 then es2 else es2 @ es3) @
          (if j then [] else [Jpeg DestroyDecompress, Free data])"
        using res es2 es3 tb by (simp add: lv_free_def jpeg_destroy_decompress_def)
      have ew: "list_all engine_work (if j2 then es2 else es2 @ es3)"
        using es2(2) es3(2) by simp
      have ex: "\<exists>es1 am es2. list_all engine_work es1 \<and> list_all engine_work es2 \<and>
        (am = [] \<and> ob = NULL \<or> (\<exists>n. am = [DrawBufMalloc n ob])) \<and>
        trace w2 = trace w @ es1 @ am @ es2 @
          (if j then [] else [Jpeg DestroyDecompress, Free data])"
        using tr ew es1(2)
        by (intro exI [of _ es1] exI [of _ "[DrawBufMalloc n ob]"]
              exI [of _ "if j2 then es2 else es2 @ es3"]) simp
      show ?thesis
        using fr ex res j2 j3 j1 nj1 p False
        by (auto simp add: n_def)
    qed
  qed
qed



subsection \<open>Failure recovery in decode_jpeg_file\<close>

text \<open>
  C2, evaluated where it fails. The engine takes \<^verbatim>\<open>error_exit\<close> in the read of the second
  scanline, after the output buffer has been allocated at address 3 and assigned to
  \<^verbatim>\<open>output_buffer\<close>. On a target where the \<^verbatim>\<open>longjmp\<close> restores the variable to what it
  held at the \<^verbatim>\<open>setjmp\<close>, the branch that recovers reads \<^verbatim>\<open>NULL\<close> and skips
  \<^verbatim>\<open>lv_draw_buf_free\<close>: the function returns \<^verbatim>\<open>NULL\<close>, having destroyed the engine state
  once and freed the file buffer once, but the output buffer is never released. On a
  target where the variable keeps the value last assigned, the same input has the buffer
  released once; and when the jump comes before the assignment (an error in
  \<^verbatim>\<open>jpeg_read_header\<close>) nothing is left allocated on either target. The variable is not
  declared \<^verbatim>\<open>volatile\<close>, so the code does not decide which of the two happens.
\<close>

theorem scanline_error_may_leak_output_buffer:
  "fst (decode_jpeg_file 1 (Some 0) scanline_error_restored_world) = (NULL, Some 12) \<and>
   new_events scanline_error_restored_world
       (snd (decode_jpeg_file 1 (Some 0) scanline_error_restored_world)) =
     [FsOpen ''A:/a.jpg'', FsSeek LV_FS_SEEK_END, FsTell, FsSeek LV_FS_SEEK_SET, Malloc 4 2,
      FsRead 4, FsClose, Jpeg CreateDecompress, Jpeg MemSrc, Jpeg ReadHeader,
      Jpeg StartDecompress, Jpeg AllocSarray, DrawBufMalloc 12 3, Jpeg (ReadScanlines 0),
      Memcpy 3 6, Jpeg (ReadScanlines 1), Jpeg DestroyDecompress, Free 2] \<and>
   unreleased (new_events scanline_error_restored_world
       (snd (decode_jpeg_file 1 (Some 0) scanline_error_restored_world))) = [3] \<and>
   new_events scanline_error_world (snd (decode_jpeg_file 1 (Some 0) scanline_error_world)) =
     [FsOpen ''A:/a.jpg'', FsSeek LV_FS_SEEK_END, FsTell, FsSeek LV_FS_SEEK_SET, Malloc 4 2,
      FsRead 4, FsClose, Jpeg CreateDecompress, Jpeg MemSrc, Jpeg ReadHeader,
      Jpeg StartDecompress, Jpeg AllocSarray, DrawBufMalloc 12 3, Jpeg (ReadScanlines 0),
      Memcpy 3 6, Jpeg (ReadScanlines 1), DrawBufFree 3, Jpeg DestroyDecompress, Free 2] \<and>
   unreleased (new_events scanline_error_world
       (snd (decode_jpeg_file 1 (Some 0) scanline_error_world))) = [] \<and>
   new_events (header_error_world\<lparr>longjmp_local := (\<lambda>p. NULL)\<rparr>)
       (snd (decode_jpeg_file 1 (Some 0)
          (header_error_world\<lparr>longjmp_local := (\<lambda>p. NULL)\<rparr>))) =
     [FsOpen ''A:/a.jpg'', FsSeek LV_FS_SEEK_END, FsTell, FsSeek LV_FS_SEEK_SET, Malloc 4 2,
      FsRead 4, FsClose, Jpeg CreateDecompress, Jpeg MemSrc, Jpeg ReadHeader,
      Jpeg DestroyDecompress, Free 2] \<and>
   new_events header_error_world (snd (decode_jpeg_file 1 (Some 0) header_error_world)) =
     [FsOpen ''A:/a.jpg'', FsSeek LV_FS_SEEK_END, FsTell, FsSeek LV_FS_SEEK_SET, Malloc 4 2,
      FsRead 4, FsClose, Jpeg CreateDecompress, Jpeg MemSrc, Jpeg ReadHeader,
      Jpeg DestroyDecompress, Free 2]"
  by (simp add: unreleased_def run_defs sample_defs prim_defs)

subsection \<open>The size left in the out-parameter\<close>

lemma output_size_exact:
  "unat iw * unat ih * 3 < 2 ^ 32 \<Longrightarrow> output_size iw ih = unat iw * unat ih * 3"
proof -
  assume b: "unat iw * unat ih * 3 < 2 ^ 32"
  then have b1: "unat iw * unat ih < 2 ^ 32" by simp
  have "unat (iw * ih) = unat iw * unat ih"
    using b1 by (simp add: unat_word_ariths)
  moreover have "unat (iw * ih * 3) = (unat (iw * ih) * 3) mod 2 ^ 32"
    by (simp add: unat_word_ariths)
  ultimately show ?thesis
    using b by (simp add: output_size_def JPEG_PIXEL_SIZE_def)
qed





subsection \<open>The cache and decoder_open\<close>


lemma alloc_file_frame: "alloc_file filename w = (r, w1) \<Longrightarrow> frame w w1"
  unfolding alloc_file_def lv_fs_open_def lv_fs_seek_def lv_fs_tell_def lv_fs_read_def
    lv_fs_close_def lv_malloc_def lv_free_def Let_def
  by (auto simp add: frame_def split: option.splits prod.splits if_splits
        dest!: allocateD)

lemma decode_jpeg_file_frame:
  assumes "decode_jpeg_file filename osize w = (r, w')"
  shows "frame w w'"
proof -
  obtain d dsz bs w1 where load: "alloc_file filename w = ((d, dsz, bs), w1)"
    by (metis prod.exhaust)
  from alloc_file_frame [OF load] have f1: "frame w w1" .
  show ?thesis
  proof (cases "d = NULL")
    case True
    with assms load f1 show ?thesis by (simp add: decode_jpeg_file_def)
  next
    case False
    obtain j ob sz w2 where run:
      "decompress (codec w1 (take (unat dsz) bs)) d osize w1 = (j, ob, sz, w2)"
      by (metis prod.exhaust)
    from decompress_sound [OF run] have f2: "frame w1 w2" by simp
    from assms load False run
    have "w' = w2 \<or> w' = lv_free d (jpeg_destroy_decompress w2) \<or>
          (\<exists>p. w' = lv_free d (jpeg_destroy_decompress (lv_draw_buf_free p w2)))"
      by (auto simp add: decode_jpeg_file_def Let_def split: if_splits bool.splits)
    then have "frame w2 w'"
      by (auto simp add: lv_free_def jpeg_destroy_decompress_def lv_draw_buf_free_def)
    with f1 f2 show ?thesis by (blast intro: frame_trans)
  qed
qed

lemma find_in_cong:
  assumes "cstr w' = cstr w"
    and "\<And>q. q \<in> set ps \<Longrightarrow>
           (case entries w' q of
              None \<Rightarrow> entries w q = None
            | Some e' \<Rightarrow> (\<exists>e. entries w q = Some e \<and> entry_src e' = entry_src e \<and>
                            entry_src_type e' = entry_src_type e))"
  shows "find_in w' s t ps = find_in w s t ps"
  using assms(2)
proof (induction ps)
  case Nil
  show ?case by simp
next
  case (Cons q ps)
  have ih: "find_in w' s t ps = find_in w s t ps"
    using Cons.prems by (intro Cons.IH) simp
  from Cons.prems [of q]
  show ?case
    by (auto simp add: ih src_matches_def assms(1)
          split: option.splits lv_cache_src_type_t.splits)
qed

lemma find_in_hit:
  "find_in w s t ps = p \<Longrightarrow> p \<noteq> NULL \<Longrightarrow>
     \<exists>e. entries w p = Some e \<and> src_matches w s t e"
  by (induction ps) (auto split: option.splits if_splits)

lemma find_in_path_cong:
  "cstr w s' = cstr w s \<Longrightarrow>
     find_in w s' LV_CACHE_SRC_TYPE_PATH ps = find_in w s LV_CACHE_SRC_TYPE_PATH ps"
  by (induction ps) (auto simp add: src_matches_def split: option.splits)

lemma find_in_lock [simp]:
  "find_in (lv_cache_lock w) s t ps = find_in w s t ps"
  by (rule find_in_cong) (auto simp add: lv_cache_lock_def split: option.splits)

lemma try_cache_not_file:
  "src_type dsc \<noteq> LV_IMAGE_SRC_FILE \<Longrightarrow>
     try_cache dsc w = (LV_RESULT_INVALID, dsc, lv_cache_unlock (lv_cache_lock w))"
  by (simp add: try_cache_def Let_def)

lemma try_cache_hit:
  assumes "src_type dsc = LV_IMAGE_SRC_FILE"
    and "find_in w (src dsc) LV_CACHE_SRC_TYPE_PATH (entry_ll w) = p" and "p \<noteq> NULL"
    and "entries w p = Some e"
  shows "try_cache dsc w =
           (LV_RESULT_OK, dsc\<lparr>img_data := entry_data e, cache_entry := p\<rparr>,
            lv_cache_unlock (log (CacheFind p)
              ((lv_cache_lock w)\<lparr>entries := (entries w)(p \<mapsto>
                  e\<lparr>entry_usage_count := Suc (entry_usage_count e)\<rparr>)\<rparr>)))"
  using assms
  by (simp add: try_cache_def lv_cache_find_by_src_def lv_cache_get_data_def Let_def
        lv_cache_lock_def [of w, THEN arg_cong [of _ _ entries]]
        lv_cache_lock_def [of w, THEN arg_cong [of _ _ entry_ll]])

lemma try_cache_miss:
  assumes "src_type dsc = LV_IMAGE_SRC_FILE"
    and "find_in w (src dsc) LV_CACHE_SRC_TYPE_PATH (entry_ll w) = NULL"
  shows "try_cache dsc w =
           (LV_RESULT_INVALID, dsc, lv_cache_unlock (log (CacheFind NULL) (lv_cache_lock w)))"
  using assms
  by (simp add: try_cache_def lv_cache_find_by_src_def lv_cache_get_data_def Let_def
        lv_cache_lock_def [of w, THEN arg_cong [of _ _ entries]]
        lv_cache_lock_def [of w, THEN arg_cong [of _ _ entry_ll]]
        split: option.splits)

lemma decoder_open_hit:
  assumes "src_type dsc = LV_IMAGE_SRC_FILE"
    and "find_in w (src dsc) LV_CACHE_SRC_TYPE_PATH (entry_ll w) = p" and "p \<noteq> NULL"
    and "entries w p = Some e"
  shows "decoder_open decoder dsc w =
           (LV_RESULT_OK, dsc\<lparr>img_data := entry_data e, cache_entry := p\<rparr>,
            lv_cache_unlock (log (CacheFind p)
              ((lv_cache_lock w)\<lparr>entries := (entries w)(p \<mapsto>
                  e\<lparr>entry_usage_count := Suc (entry_usage_count e)\<rparr>)\<rparr>)))"
  by (simp add: decoder_open_def try_cache_hit [OF assms])

lemma decoder_open_not_file:
  "src_type dsc \<noteq> LV_IMAGE_SRC_FILE \<Longrightarrow>
     decoder_open decoder dsc w = (LV_RESULT_INVALID, dsc, lv_cache_unlock (lv_cache_lock w))"
  by (simp add: decoder_open_def try_cache_not_file)

lemma decoder_open_miss:
  assumes isfile: "src_type dsc = LV_IMAGE_SRC_FILE"
    and miss: "find_in w (src dsc) LV_CACHE_SRC_TYPE_PATH (entry_ll w) = NULL"
    and dec: "decode_jpeg_file (src dsc) (Some 0)
                (lv_cache_unlock (log (CacheFind NULL) (lv_cache_lock w))) = ((img, osz), w2)"
    and al: "allocate w2 = (p, wa)"
  shows "decoder_open decoder dsc w =
     (if p = NULL then
        (LV_RESULT_INVALID, dsc, lv_cache_unlock (log (CacheAdd NULL) (log CacheLock wa)))
      else
        (LV_RESULT_OK, dsc\<lparr>img_data := img, cache_entry := p\<rparr>,
         lv_cache_unlock (log (Strdup (src dsc) (Suc (brk wa)))
           (log (CacheAdd p) (log CacheLock
             (wa\<lparr>brk := Suc (brk wa),
                 cstr := (cstr wa)(Suc (brk wa) := cstr wa (src dsc)),
                 entries := (entries wa)(p \<mapsto>
                    inserted_entry decoder wa img (case osz of None \<Rightarrow> 0 | Some n \<Rightarrow> n)
                      (Suc (brk wa))),
                 entry_ll := p # entry_ll wa\<rparr>))))))"
proof -
  have al': "allocate (lv_cache_lock w2) = (p, log CacheLock wa)"
    using al by (auto simp add: allocate_def lv_cache_lock_def log_def split: list.splits if_splits)
  show ?thesis
  proof (cases "p = NULL")
    case True
    then show ?thesis
      by (simp add: decoder_open_def try_cache_miss [OF isfile miss] isfile dec Let_def
            lv_cache_add_def al')
  next
    case False
    have "decoder_open decoder dsc w =
        (let w4 = log (CacheAdd p)
                    ((log CacheLock wa)\<lparr>entries := (entries wa)(p \<mapsto>
                        \<lparr>entry_data = img,
                         entry_data_size = (case osz of None \<Rightarrow> 0 | Some n \<Rightarrow> n),
                         entry_data_type = cache_data_type decoder,
                         entry_memory_usage = (case osz of None \<Rightarrow> 0 | Some n \<Rightarrow> n),
                         entry_weight = 0, entry_src = NULL,
                         entry_src_type = LV_CACHE_SRC_TYPE_PATH, entry_usage_count = 0,
                         entry_invalidate_cb = None\<rparr>),
                      entry_ll := p # entry_ll wa\<rparr>);
             w5 = entry_update p
                    (\<lambda>e. e\<lparr>entry_weight := decode_ticks w2,
                           entry_invalidate_cb := Some CACHE_INVALIDATE_CB\<rparr>) w4;
             w6 = (case lv_strdup (src dsc) w5 of (q, w') \<Rightarrow>
                     entry_update p
                       (\<lambda>e. e\<lparr>entry_src := q,
                               entry_src_type := LV_CACHE_SRC_TYPE_PATH\<rparr>) w')
         in (LV_RESULT_OK,
             dsc\<lparr>img_data := lv_cache_get_data p w6, cache_entry := p\<rparr>,
             lv_cache_unlock w6))"
      using False
      by (simp add: decoder_open_def try_cache_miss [OF isfile miss] isfile dec Let_def
            lv_cache_add_def al')
    also have "\<dots> =
        (LV_RESULT_OK, dsc\<lparr>img_data := img, cache_entry := p\<rparr>,
         lv_cache_unlock (log (Strdup (src dsc) (Suc (brk wa)))
           (log (CacheAdd p) (log CacheLock
             (wa\<lparr>brk := Suc (brk wa),
                 cstr := (cstr wa)(Suc (brk wa) := cstr wa (src dsc)),
                 entries := (entries wa)(p \<mapsto>
                    inserted_entry decoder wa img (case osz of None \<Rightarrow> 0 | Some n \<Rightarrow> n)
                      (Suc (brk wa))),
                 entry_ll := p # entry_ll wa\<rparr>)))))"
      using allocateD [OF al]
      by (simp add: entry_update_def lv_strdup_def lv_cache_get_data_def
            inserted_entry_def lv_cache_unlock_def log_def Let_def)
    finally show ?thesis using False by simp
  qed
qed

lemma decoder_open_ok_post:
  assumes ok: "decoder_open decoder dsc w = (LV_RESULT_OK, dsc1, w1)"
  shows "src_type dsc = LV_IMAGE_SRC_FILE \<and> cache_entry dsc1 \<noteq> NULL \<and>
         find_in w1 (src dsc) LV_CACHE_SRC_TYPE_PATH (entry_ll w1) = cache_entry dsc1 \<and>
         (\<exists>e. entries w1 (cache_entry dsc1) = Some e \<and> entry_data e = img_data dsc1)"
proof -
  have isfile: "src_type dsc = LV_IMAGE_SRC_FILE"
    using ok decoder_open_not_file [of dsc decoder w] by auto
  define p0 where "p0 = find_in w (src dsc) LV_CACHE_SRC_TYPE_PATH (entry_ll w)"
  show ?thesis
  proof (cases "p0 = NULL")
    case False
    from find_in_hit [OF p0_def [symmetric] False]
    obtain e where e: "entries w p0 = Some e" by blast
    from decoder_open_hit [OF isfile p0_def [symmetric] False e, of decoder] ok
    have d1: "dsc1 = dsc\<lparr>img_data := entry_data e, cache_entry := p0\<rparr>"
      and w1: "w1 = lv_cache_unlock (log (CacheFind p0)
              ((lv_cache_lock w)\<lparr>entries := (entries w)(p0 \<mapsto>
                  e\<lparr>entry_usage_count := Suc (entry_usage_count e)\<rparr>)\<rparr>))"
      by simp_all
    have "find_in w1 (src dsc) LV_CACHE_SRC_TYPE_PATH (entry_ll w) = p0"
      unfolding p0_def
      by (rule find_in_cong)
         (auto simp add: w1 e lv_cache_unlock_def lv_cache_lock_def log_def split: option.splits)
    moreover have "entry_ll w1 = entry_ll w"
      by (simp add: w1 lv_cache_unlock_def lv_cache_lock_def log_def)
    moreover have "entries w1 p0 = Some (e\<lparr>entry_usage_count := Suc (entry_usage_count e)\<rparr>)"
      by (simp add: w1 lv_cache_unlock_def lv_cache_lock_def log_def)
    ultimately show ?thesis
      using isfile False by (simp add: d1)
  next
    case True
    obtain img osz w2 where dec: "decode_jpeg_file (src dsc) (Some 0)
                (lv_cache_unlock (log (CacheFind NULL) (lv_cache_lock w))) = ((img, osz), w2)"
      by (metis prod.exhaust)
    obtain p wa where al: "allocate w2 = (p, wa)" by (metis prod.exhaust)
    note m = decoder_open_miss [OF isfile True [unfolded p0_def] dec al, of decoder]
    from m ok have pn: "p \<noteq> NULL" by (auto split: if_splits)
    from m ok pn have d1: "dsc1 = dsc\<lparr>img_data := img, cache_entry := p\<rparr>"
      and w1: "w1 = lv_cache_unlock (log (Strdup (src dsc) (Suc (brk wa)))
           (log (CacheAdd p) (log CacheLock
             (wa\<lparr>brk := Suc (brk wa),
                 cstr := (cstr wa)(Suc (brk wa) := cstr wa (src dsc)),
                 entries := (entries wa)(p \<mapsto>
                    inserted_entry decoder wa img (case osz of None \<Rightarrow> 0 | Some n \<Rightarrow> n)
                      (Suc (brk wa))),
                 entry_ll := p # entry_ll wa\<rparr>))))"
      by simp_all
    have ll: "entry_ll w1 = p # entry_ll wa"
      and en: "entries w1 p = Some (inserted_entry decoder wa img
                 (case osz of None \<Rightarrow> 0 | Some n \<Rightarrow> n) (Suc (brk wa)))"
      and cs: "cstr w1 = (cstr wa)(Suc (brk wa) := cstr wa (src dsc))"
      by (simp_all add: w1 lv_cache_unlock_def)
    have "find_in w1 (src dsc) LV_CACHE_SRC_TYPE_PATH (entry_ll w1) = p"
      by (simp add: ll en src_matches_def inserted_entry_def cs)
    then show ?thesis
      using isfile pn en by (simp add: d1 inserted_entry_def)
  qed
qed

subsection \<open>The cache-hit path of decoder_open\<close>

text \<open>
  C6. After an open of a file source that has succeeded, an open of the same path (the
  same characters, by whatever pointer), with nothing done to the cache in between,
  succeeds too and returns the same data pointer. Its only calls are the lock, the
  lookup and the unlock of the cache: it opens no file and does not call the engine.
\<close>

theorem second_open_hits_cache:
  assumes first: "decoder_open decoder dsc w = (LV_RESULT_OK, dsc1, w1)"
    and isfile: "src_type dsc2 = LV_IMAGE_SRC_FILE"
    and same: "cstr w1 (src dsc2) = cstr w1 (src dsc)"
  shows "fst (decoder_open decoder dsc2 w1) = LV_RESULT_OK \<and>
         img_data (fst (snd (decoder_open decoder dsc2 w1))) = img_data dsc1 \<and>
         new_events w1 (snd (snd (decoder_open decoder dsc2 w1))) =
           [CacheLock, CacheFind (cache_entry dsc1), CacheUnlock]"
proof -
  from decoder_open_ok_post [OF first]
  obtain e where pn: "cache_entry dsc1 \<noteq> NULL"
    and f: "find_in w1 (src dsc) LV_CACHE_SRC_TYPE_PATH (entry_ll w1) = cache_entry dsc1"
    and e: "entries w1 (cache_entry dsc1) = Some e" "entry_data e = img_data dsc1"
    by blast
  have f2: "find_in w1 (src dsc2) LV_CACHE_SRC_TYPE_PATH (entry_ll w1) = cache_entry dsc1"
    using find_in_path_cong [OF same] f by simp
  show ?thesis
    by (simp add: decoder_open_hit [OF isfile f2 pn e(1)] e(2) new_events_def
          lv_cache_unlock_def lv_cache_lock_def)
qed

theorem second_open_hits_cache_witness:
  "fst (decoder_open sample_decoder sample_dsc valid_world) = LV_RESULT_OK \<and>
   src_type sample_dsc = LV_IMAGE_SRC_FILE \<and>
   img_data (fst (snd (decoder_open sample_decoder sample_dsc valid_world))) = 3 \<and>
   fst (decoder_open sample_decoder sample_dsc
          (snd (snd (decoder_open sample_decoder sample_dsc valid_world)))) = LV_RESULT_OK \<and>
   img_data (fst (snd (decoder_open sample_decoder sample_dsc
          (snd (snd (decoder_open sample_decoder sample_dsc valid_world)))))) = 3 \<and>
   new_events (snd (snd (decoder_open sample_decoder sample_dsc valid_world)))
     (snd (snd (decoder_open sample_decoder sample_dsc
          (snd (snd (decoder_open sample_decoder sample_dsc valid_world)))))) =
     [CacheLock, CacheFind 4, CacheUnlock]"
proof -
  have r: "fst (decoder_open sample_decoder sample_dsc valid_world) = LV_RESULT_OK"
    and i: "img_data (fst (snd (decoder_open sample_decoder sample_dsc valid_world))) = 3"
    and c: "cache_entry (fst (snd (decoder_open sample_decoder sample_dsc valid_world))) = 4"
    by (simp_all add: open_defs run_defs sample_defs prim_defs)
  have first: "decoder_open sample_decoder sample_dsc valid_world =
      (LV_RESULT_OK, fst (snd (decoder_open sample_decoder sample_dsc valid_world)),
       snd (snd (decoder_open sample_decoder sample_dsc valid_world)))"
    using r by (metis prod.collapse)
  have f: "src_type sample_dsc = LV_IMAGE_SRC_FILE" by (simp add: sample_defs)
  from second_open_hits_cache [OF first f refl]
  show ?thesis using r i c f by simp
qed


lemma alloc_file_trace: "alloc_file filename w = (r, w1) \<Longrightarrow> \<exists>es. trace w1 = trace w @ es"
  unfolding alloc_file_def lv_fs_open_def lv_fs_seek_def lv_fs_tell_def lv_fs_read_def
    lv_fs_close_def lv_malloc_def lv_free_def Let_def
  by (auto simp add: split: option.splits prod.splits if_splits dest!: allocateD)

lemma decode_jpeg_file_trace:
  assumes "decode_jpeg_file filename osize w = (r, w')"
  shows "\<exists>es. trace w' = trace w @ es"
proof -
  obtain d dsz bs w1 where load: "alloc_file filename w = ((d, dsz, bs), w1)"
    by (metis prod.exhaust)
  from alloc_file_trace [OF load] obtain es0 where t1: "trace w1 = trace w @ es0" by blast
  show ?thesis
  proof (cases "d = NULL")
    case True
    with assms load t1 show ?thesis by (simp add: decode_jpeg_file_def)
  next
    case False
    obtain j ob sz w2 where run:
      "decompress (codec w1 (take (unat dsz) bs)) d osize w1 = (j, ob, sz, w2)"
      by (metis prod.exhaust)
    from decompress_sound [OF run] obtain es1 where t2: "trace w2 = trace w1 @ es1"
      by (metis append.assoc)
    from assms load False run
    have "w' = w2 \<or> w' = lv_free d (jpeg_destroy_decompress w2) \<or>
          (\<exists>p. w' = lv_free d (jpeg_destroy_decompress (lv_draw_buf_free p w2)))"
      by (auto simp add: decode_jpeg_file_def Let_def split: if_splits bool.splits)
    then have "\<exists>es. trace w' = trace w2 @ es"
      by (auto simp add: lv_free_def jpeg_destroy_decompress_def lv_draw_buf_free_def)
    with t1 t2 show ?thesis by auto
  qed
qed

subsection \<open>What decoder_open inserts\<close>

text \<open>
  C9. For a source that is not a file, \<^verbatim>\<open>decoder_open\<close> returns \<^verbatim>\<open>LV_RESULT_INVALID\<close>
  having only locked and unlocked the cache: the insert is not reached and the cache is
  as before. Whenever \<^verbatim>\<open>decoder_open\<close> does insert an entry, the source is a file, the
  entry has source type \<^verbatim>\<open>LV_CACHE_SRC_TYPE_PATH\<close>, and its \<^verbatim>\<open>src\<close> is the pointer that
  \<^verbatim>\<open>lv_strdup\<close> returned for the path: a new address holding the characters of the
  path. No call leaves an entry of source type \<^verbatim>\<open>LV_CACHE_SRC_TYPE_POINTER\<close> in the cache
  that was not there, with that type, before: the branch that assigns it is dead.
\<close>

theorem open_inserts_only_path_entries:
  "(src_type dsc \<noteq> LV_IMAGE_SRC_FILE \<longrightarrow>
      fst (decoder_open decoder dsc w) = LV_RESULT_INVALID \<and>
      new_events w (after_open decoder dsc w) = [CacheLock, CacheUnlock] \<and>
      entry_ll (after_open decoder dsc w) = entry_ll w \<and>
      entries (after_open decoder dsc w) = entries w)
   \<and> (entry_ll (after_open decoder dsc w) = entry_ll w \<or>
      (\<exists>p e. entry_ll (after_open decoder dsc w) = p # entry_ll w \<and>
             entries (after_open decoder dsc w) p = Some e \<and>
             src_type dsc = LV_IMAGE_SRC_FILE \<and>
             entry_src_type e = LV_CACHE_SRC_TYPE_PATH \<and>
             Strdup (src dsc) (entry_src e) \<in> set (new_events w (after_open decoder dsc w)) \<and>
             cstr (after_open decoder dsc w) (entry_src e) = cstr w (src dsc) \<and>
             brk w < entry_src e))
   \<and> (\<forall>q e. entries (after_open decoder dsc w) q = Some e \<and>
             entry_src_type e = LV_CACHE_SRC_TYPE_POINTER \<longrightarrow>
             (\<exists>e0. entries w q = Some e0 \<and> entry_src_type e0 = LV_CACHE_SRC_TYPE_POINTER))"
proof (cases "src_type dsc = LV_IMAGE_SRC_FILE")
  case False
  then show ?thesis
    by (simp add: after_open_def decoder_open_not_file new_events_def lv_cache_unlock_def
          lv_cache_lock_def)
next
  case True
  note isfile = True
  define p0 where "p0 = find_in w (src dsc) LV_CACHE_SRC_TYPE_PATH (entry_ll w)"
  show ?thesis
  proof (cases "p0 = NULL")
    case False
    from find_in_hit [OF p0_def [symmetric] False]
    obtain e where e: "entries w p0 = Some e" by blast
    note h = decoder_open_hit [OF isfile p0_def [symmetric] False e, of decoder]
    have "entry_ll (after_open decoder dsc w) = entry_ll w"
      by (simp add: after_open_def h lv_cache_unlock_def lv_cache_lock_def log_def)
    moreover have "entries (after_open decoder dsc w) =
        (entries w)(p0 \<mapsto> e\<lparr>entry_usage_count := Suc (entry_usage_count e)\<rparr>)"
      by (simp add: after_open_def h lv_cache_unlock_def lv_cache_lock_def log_def)
    ultimately show ?thesis using isfile e by auto
  next
    case True
    obtain img osz w2 where dec: "decode_jpeg_file (src dsc) (Some 0)
                (lv_cache_unlock (log (CacheFind NULL) (lv_cache_lock w))) = ((img, osz), w2)"
      by (metis prod.exhaust)
    obtain p wa where al: "allocate w2 = (p, wa)" by (metis prod.exhaust)
    note m = decoder_open_miss [OF isfile True [unfolded p0_def] dec al, of decoder]
    from decode_jpeg_file_frame [OF dec] have f2: "frame w w2"
      by (simp add: frame_def lv_cache_unlock_def lv_cache_lock_def)
    from decode_jpeg_file_trace [OF dec] obtain es where t2: "trace w2 = trace w @ es"
      by (auto simp add: lv_cache_unlock_def lv_cache_lock_def)
    from allocateD [OF al] have fa: "frame w2 wa" and ta: "trace wa = trace w2"
      by (auto simp add: frame_def)
    from f2 fa have f: "frame w wa" by (rule frame_trans)
    show ?thesis
    proof (cases "p = NULL")
      case True
      with m have "after_open decoder dsc w =
          lv_cache_unlock (log (CacheAdd NULL) (log CacheLock wa))"
        by (simp add: after_open_def)
      then show ?thesis using f isfile
        by (simp add: frame_def lv_cache_unlock_def)
    next
      case False
      define q where "q = Suc (brk wa)"
      define e where "e = inserted_entry decoder wa img (case osz of None \<Rightarrow> 0 | Some n \<Rightarrow> n) q"
      from m False have ao: "after_open decoder dsc w =
          lv_cache_unlock (log (Strdup (src dsc) q)
           (log (CacheAdd p) (log CacheLock
             (wa\<lparr>brk := q, cstr := (cstr wa)(q := cstr wa (src dsc)),
                 entries := (entries wa)(p \<mapsto> e), entry_ll := p # entry_ll wa\<rparr>))))"
        by (simp add: after_open_def q_def e_def)
      have ll: "entry_ll (after_open decoder dsc w) = p # entry_ll w"
        and en: "entries (after_open decoder dsc w) = (entries w)(p \<mapsto> e)"
        and cs: "cstr (after_open decoder dsc w) q = cstr w (src dsc)"
        and tr: "trace (after_open decoder dsc w) =
                   trace w @ es @ [CacheLock, CacheAdd p, Strdup (src dsc) q, CacheUnlock]"
        using f ta t2 by (simp_all add: ao lv_cache_unlock_def frame_def)
      have ev: "Strdup (src dsc) q \<in> set (new_events w (after_open decoder dsc w))"
        by (simp add: new_events_def tr)
      have eq: "entry_src e = q" "entry_src_type e = LV_CACHE_SRC_TYPE_PATH"
        by (simp_all add: e_def inserted_entry_def)
      have bq: "brk w < q" using f by (simp add: q_def frame_def)
      have part2: "\<exists>p e. entry_ll (after_open decoder dsc w) = p # entry_ll w \<and>
             entries (after_open decoder dsc w) p = Some e \<and>
             src_type dsc = LV_IMAGE_SRC_FILE \<and>
             entry_src_type e = LV_CACHE_SRC_TYPE_PATH \<and>
             Strdup (src dsc) (entry_src e) \<in> set (new_events w (after_open decoder dsc w)) \<and>
             cstr (after_open decoder dsc w) (entry_src e) = cstr w (src dsc) \<and>
             brk w < entry_src e"
        using ll en isfile eq ev cs bq
        by (intro exI [of _ p] exI [of _ e]) simp
      have part3: "\<forall>q e. entries (after_open decoder dsc w) q = Some e \<and>
             entry_src_type e = LV_CACHE_SRC_TYPE_POINTER \<longrightarrow>
             (\<exists>e0. entries w q = Some e0 \<and> entry_src_type e0 = LV_CACHE_SRC_TYPE_POINTER)"
        using eq(2) by (auto simp add: en split: if_splits)
      show ?thesis using isfile part2 part3 by blast
    qed
  qed
qed

theorem open_inserts_only_path_entries_witness:
  "src_type (sample_dsc\<lparr>src_type := LV_IMAGE_SRC_VARIABLE\<rparr>) \<noteq> LV_IMAGE_SRC_FILE \<and>
   fst (decoder_open sample_decoder (sample_dsc\<lparr>src_type := LV_IMAGE_SRC_VARIABLE\<rparr>) valid_world)
     = LV_RESULT_INVALID \<and>
   new_events valid_world
     (after_open sample_decoder (sample_dsc\<lparr>src_type := LV_IMAGE_SRC_VARIABLE\<rparr>) valid_world)
     = [CacheLock, CacheUnlock] \<and>
   entry_ll (after_open sample_decoder sample_dsc valid_world) = [4] \<and>
   entry_ll valid_world = [] \<and>
   entries (after_open sample_decoder sample_dsc valid_world) 4 =
     Some (inserted_entry sample_decoder valid_world 3 12 5) \<and>
   cstr (after_open sample_decoder sample_dsc valid_world) 5 = ''A:/a.jpg'' \<and>
   entries (after_open sample_decoder sample_dsc pointer_entry_world) 9 =
     Some (sample_entry LV_CACHE_SRC_TYPE_POINTER) \<and>
   entry_src_type (sample_entry LV_CACHE_SRC_TYPE_POINTER) = LV_CACHE_SRC_TYPE_POINTER \<and>
   (\<exists>e0. entries pointer_entry_world 9 = Some e0 \<and>
         entry_src_type e0 = LV_CACHE_SRC_TYPE_POINTER)"
proof -
  have a: "src_type (sample_dsc\<lparr>src_type := LV_IMAGE_SRC_VARIABLE\<rparr>) \<noteq> LV_IMAGE_SRC_FILE"
    by (simp add: sample_defs)
  have b: "entry_ll (after_open sample_decoder sample_dsc valid_world) = [4]"
    "entry_ll valid_world = []"
    "entries (after_open sample_decoder sample_dsc valid_world) 4 =
       Some (inserted_entry sample_decoder valid_world 3 12 5)"
    "cstr (after_open sample_decoder sample_dsc valid_world) 5 = ''A:/a.jpg''"
    by (simp_all add: after_open_def inserted_entry_def open_defs run_defs sample_defs prim_defs)
  have d: "entries (after_open sample_decoder sample_dsc pointer_entry_world) 9 =
       Some (sample_entry LV_CACHE_SRC_TYPE_POINTER)"
    "entry_src_type (sample_entry LV_CACHE_SRC_TYPE_POINTER) = LV_CACHE_SRC_TYPE_POINTER"
    by (simp_all add: after_open_def inserted_entry_def open_defs run_defs sample_defs prim_defs)
  from open_inserts_only_path_entries
         [of "sample_dsc\<lparr>src_type := LV_IMAGE_SRC_VARIABLE\<rparr>" sample_decoder valid_world]
  have c: "fst (decoder_open sample_decoder (sample_dsc\<lparr>src_type := LV_IMAGE_SRC_VARIABLE\<rparr>)
                  valid_world) = LV_RESULT_INVALID"
    "new_events valid_world
       (after_open sample_decoder (sample_dsc\<lparr>src_type := LV_IMAGE_SRC_VARIABLE\<rparr>) valid_world)
       = [CacheLock, CacheUnlock]"
    using a by blast+
  from open_inserts_only_path_entries [of sample_dsc sample_decoder pointer_entry_world] d
  have e: "\<exists>e0. entries pointer_entry_world 9 = Some e0 \<and>
                entry_src_type e0 = LV_CACHE_SRC_TYPE_POINTER"
    by blast
  from a b c d e show ?thesis by simp
qed

subsection \<open>decoder_open when the decode or the insert fails\<close>

text \<open>
  C1, evaluated where it fails. The header of the file parses, so \<^verbatim>\<open>decoder_info\<close>
  succeeds. In the open that follows, the engine takes \<^verbatim>\<open>error_exit\<close> in the read of
  the second scanline, so \<^verbatim>\<open>decode_jpeg_file\<close> returns \<^verbatim>\<open>NULL\<close> (with 12 left in
  \<^verbatim>\<open>*size\<close>). \<^verbatim>\<open>decoder_open\<close> does not test the value: it passes it to
  \<^verbatim>\<open>lv_cache_add\<close>, returns \<^verbatim>\<open>LV_RESULT_OK\<close> with \<^verbatim>\<open>img_data\<close> \<^verbatim>\<open>NULL\<close>, and leaves in
  the cache an entry for the path whose data is \<^verbatim>\<open>NULL\<close>, which the next lookup by that
  path finds.
\<close>

theorem open_after_failed_decode_publishes_null:
  "fst (decoder_info 1 sample_header scanline_error_world) = LV_RESULT_OK \<and>
   fst (decode_jpeg_file 1 (Some 0) (after_info 1 sample_header scanline_error_world))
     = (NULL, Some 12) \<and>
   fst (decoder_open sample_decoder sample_dsc (after_info 1 sample_header scanline_error_world))
     = LV_RESULT_OK \<and>
   img_data (fst (snd (decoder_open sample_decoder sample_dsc
      (after_info 1 sample_header scanline_error_world)))) = NULL \<and>
   entry_ll (after_info 1 sample_header scanline_error_world) = [] \<and>
   entry_ll (after_open sample_decoder sample_dsc
      (after_info 1 sample_header scanline_error_world)) = [5] \<and>
   entries (after_open sample_decoder sample_dsc
      (after_info 1 sample_header scanline_error_world)) 5 =
     Some (inserted_entry sample_decoder scanline_error_world NULL 12 6) \<and>
   fst (lv_cache_find_by_src 1 LV_CACHE_SRC_TYPE_PATH
          (after_open sample_decoder sample_dsc
             (after_info 1 sample_header scanline_error_world))) = 5 \<and>
   lv_cache_get_data 5 (after_open sample_decoder sample_dsc
      (after_info 1 sample_header scanline_error_world)) = NULL"
  by (simp add: after_open_def inserted_entry_def info_defs open_defs run_defs sample_defs
        prim_defs)

text \<open>
  C3, evaluated where it fails. \<^verbatim>\<open>decoder_info\<close> succeeds. In the open that follows, the
  decode succeeds and returns the buffer at address 4; the allocation of the entry
  fails, so \<^verbatim>\<open>lv_cache_add\<close> returns \<^verbatim>\<open>NULL\<close>. \<^verbatim>\<open>decoder_open\<close> unlocks the cache and
  returns \<^verbatim>\<open>LV_RESULT_INVALID\<close>, and nothing is cached; but it never frees the decoded
  buffer, which stays allocated with no pointer to it left.
\<close>

theorem failed_insert_leaks_decoded_buffer:
  "fst (decoder_info 1 sample_header insert_failure_world) = LV_RESULT_OK \<and>
   fst (fst (decode_jpeg_file 1 (Some 0) (after_info 1 sample_header insert_failure_world))) = 4 \<and>
   fst (decoder_open sample_decoder sample_dsc (after_info 1 sample_header insert_failure_world))
     = LV_RESULT_INVALID \<and>
   entry_ll (after_open sample_decoder sample_dsc
      (after_info 1 sample_header insert_failure_world)) = [] \<and>
   new_events (after_info 1 sample_header insert_failure_world)
     (after_open sample_decoder sample_dsc (after_info 1 sample_header insert_failure_world)) =
     [CacheLock, CacheFind NULL, CacheUnlock,
      FsOpen ''A:/a.jpg'', FsSeek LV_FS_SEEK_END, FsTell, FsSeek LV_FS_SEEK_SET, Malloc 4 3,
      FsRead 4, FsClose, Jpeg CreateDecompress, Jpeg MemSrc, Jpeg ReadHeader,
      Jpeg StartDecompress, Jpeg AllocSarray, DrawBufMalloc 12 4, Jpeg (ReadScanlines 0),
      Memcpy 4 6, Jpeg (ReadScanlines 1), Memcpy 10 6, Jpeg FinishDecompress,
      Jpeg DestroyDecompress, Free 3, CacheLock, CacheAdd NULL, CacheUnlock] \<and>
   unreleased (new_events (after_info 1 sample_header insert_failure_world)
     (after_open sample_decoder sample_dsc
        (after_info 1 sample_header insert_failure_world))) = [4]"
  by (simp add: after_open_def unreleased_def info_defs open_defs run_defs sample_defs
        prim_defs)

subsection \<open>The size of the decoded buffer\<close>


lemma read_scanlines_loop_copies:
  assumes "read_scanlines_loop s cur stride k h w = (False, w1)"
    and "k \<le> i" and "i < h"
  shows "Memcpy (cur + (i - k) * stride) stride \<in> set (trace w1)"
  using assms
proof (induction s cur stride k h w rule: read_scanlines_loop.induct)
  case (1 s cur_pos stride k output_height w)
  from "1.prems" have kh: "k < output_height" by simp
  show ?case
  proof (cases "error_exit_in s (ReadScanlines k)")
    case True
    with kh "1.prems"(1) show ?thesis
      by (simp add: read_scanlines_loop.simps [of s cur_pos stride k output_height w])
  next
    case False
    with kh "1.prems"(1)
    have rec: "read_scanlines_loop s (cur_pos + stride) stride (Suc k) output_height
                   (log (Memcpy cur_pos stride) (log (Jpeg (ReadScanlines k)) w)) = (False, w1)"
      by (simp add: read_scanlines_loop.simps [of s cur_pos stride k output_height w])
    have call: "jpeg_calls s [ReadScanlines k] w = (False, log (Jpeg (ReadScanlines k)) w)"
      using False by simp
    show ?thesis
    proof (cases "i = k")
      case True
      from read_scanlines_loop_sound [OF rec]
      obtain es where "trace w1 = trace (log (Memcpy cur_pos stride)
          (log (Jpeg (ReadScanlines k)) w)) @ es"
        by blast
      then show ?thesis using True by simp
    next
      case False
      with "1.prems" have ik: "Suc k \<le> i" by simp
      from "1.IH" [OF kh call [symmetric] refl rec ik "1.prems"(3)]
      have "Memcpy (cur_pos + stride + (i - Suc k) * stride) stride \<in> set (trace w1)" .
      moreover have "cur_pos + stride + (i - Suc k) * stride = cur_pos + (i - k) * stride"
        using ik by (metis Suc_diff_le add.assoc diff_Suc_Suc mult_Suc)
      ultimately show ?thesis by simp
    qed
  qed
qed

lemma decompress_ok:
  assumes noerr: "\<And>c. \<not> error_exit_in s c"
    and al: "fst (allocate w) = p" and pn: "p \<noteq> NULL"
    and run: "decompress s d (Some n0) w = (j, ob, sz, w2)"
  shows "j = False \<and> ob = p \<and> brk w2 = p \<and>
         sz = Some (output_size (image_width s) (image_height s)) \<and>
         DrawBufMalloc (output_size (image_width s) (image_height s)) p \<in> set (trace w2) \<and>
         (\<forall>i. i < unat (image_height s) \<longrightarrow>
            Memcpy (p + i * unat (image_width s * JPEG_PIXEL_SIZE))
                   (unat (image_width s * JPEG_PIXEL_SIZE)) \<in> set (trace w2))"
proof -
  from decompress_sound [OF run] noerr al pn
  have j: "j = False" and ob: "ob = p"
    and sz: "sz = Some (output_size (image_width s) (image_height s))"
    by auto
  obtain w1 where c1: "jpeg_calls s [CreateDecompress, MemSrc, ReadHeader, StartDecompress,
                         AllocSarray] w = (False, w1)"
    using noerr by simp
  from jpeg_calls_sound [OF c1]
  have a1: "alloc_plan w1 = alloc_plan w" and b1: "brk w1 = brk w" by auto
  obtain p' wa where ala: "allocate w1 = (p', wa)" by (metis prod.exhaust)
  have p': "p' = p" using ala allocate_cong [OF a1 b1] al by simp
  define n where "n = output_size (image_width s) (image_height s)"
  define wb where "wb = log (DrawBufMalloc n p) wa"
  define stride where "stride = unat (image_width s * JPEG_PIXEL_SIZE)"
  have mal: "lv_draw_buf_malloc n LV_COLOR_FORMAT_RGB888 w1 = (p, wb)"
    using ala p' by (simp add: lv_draw_buf_malloc_def wb_def)
  obtain j2 w3 where c2: "read_scanlines_loop s p stride 0 (unat (image_height s)) wb = (j2, w3)"
    by (metis prod.exhaust)
  from read_scanlines_loop_sound [OF c2] noerr have j2: "j2 = False"
    and t3: "\<exists>es. trace w3 = trace wb @ es" and b3: "brk w3 = brk wb" by auto
  obtain w4 where c3: "jpeg_calls s [FinishDecompress] w3 = (False, w4)"
    using noerr by simp
  from jpeg_calls_sound [OF c3] have t4: "\<exists>es. trace w4 = trace w3 @ es"
    and b4: "brk w4 = brk w3" by auto
  have bb: "brk wb = p"
    using allocateD [OF ala] pn p' by (auto simp add: wb_def)
  from run c1 mal pn c2 j2 c3
  have w2: "w2 = lv_free d (jpeg_destroy_decompress w4)"
    by (simp add: decompress_def n_def stride_def Let_def del: jpeg_calls.simps)
  from t3 t4 obtain es3 es4 where tr: "trace w2 = trace wb @ es3 @ es4 @
      [Jpeg DestroyDecompress, Free d]" "trace w3 = trace wb @ es3"
    by (auto simp add: w2 lv_free_def jpeg_destroy_decompress_def)
  have m: "DrawBufMalloc n p \<in> set (trace w2)"
    by (simp add: tr wb_def)
  have cp: "\<forall>i. i < unat (image_height s) \<longrightarrow> Memcpy (p + i * stride) stride \<in> set (trace w2)"
  proof (intro allI impI)
    fix i assume "i < unat (image_height s)"
    from read_scanlines_loop_copies [OF c2 [unfolded j2] _ this]
    have "Memcpy (p + i * stride) stride \<in> set (trace w3)" by simp
    then show "Memcpy (p + i * stride) stride \<in> set (trace w2)"
      using tr by auto
  qed
  have bk: "brk w2 = p"
    using b3 b4 bb by (simp add: w2 lv_free_def jpeg_destroy_decompress_def)
  show ?thesis using j ob sz m cp bk by (simp add: n_def stride_def)
qed

lemma decode_jpeg_file_ok:
  assumes loaded: "loaded_data filename w \<noteq> NULL"
    and noerr: "\<And>c. \<not> error_exit_in (loaded_stream filename w) c"
    and al: "fst (allocate (after_load filename w)) = p" and pn: "p \<noteq> NULL"
    and dec: "decode_jpeg_file filename (Some n0) w = ((img, osz), w2)"
  shows "img = p \<and> brk w2 = p \<and>
         osz = Some (output_size (image_width (loaded_stream filename w))
                                 (image_height (loaded_stream filename w))) \<and>
         DrawBufMalloc (output_size (image_width (loaded_stream filename w))
                          (image_height (loaded_stream filename w))) p \<in> set (trace w2) \<and>
         (\<forall>i. i < unat (image_height (loaded_stream filename w)) \<longrightarrow>
            Memcpy (p + i * unat (image_width (loaded_stream filename w) * JPEG_PIXEL_SIZE))
                   (unat (image_width (loaded_stream filename w) * JPEG_PIXEL_SIZE))
              \<in> set (trace w2))"
proof -
  obtain d dsz bs w1 where load: "alloc_file filename w = ((d, dsz, bs), w1)"
    by (metis prod.exhaust)
  define s where "s = codec w1 (take (unat dsz) bs)"
  have d: "d \<noteq> NULL"
    using loaded load by (simp add: loaded_data_def)
  have ls: "loaded_stream filename w = s" and aw: "after_load filename w = w1"
    using load by (simp_all add: loaded_stream_def after_load_def s_def)
  obtain j ob sz w3 where run: "decompress s d (Some n0) w1 = (j, ob, sz, w3)"
    by (metis prod.exhaust)
  note ok = decompress_ok [OF noerr [unfolded ls] al [unfolded aw] pn run]
  from ok have j: "j = False" by simp
  from dec load d run j have "img = ob" "osz = sz" "w2 = w3"
    by (simp_all add: decode_jpeg_file_def s_def)
  with ok show ?thesis by (simp add: ls)
qed

text \<open>
  C7, evaluated where it fails. The file holds an image of 40000 by 40000 pixels.
  \<^verbatim>\<open>decoder_info\<close> reports these dimensions. \<^verbatim>\<open>decoder_open\<close>, called next, succeeds, but
  the size it computes, allocates and records for the decoded buffer is 505032704: the
  product \<^verbatim>\<open>cinfo.output_width * cinfo.output_height * JPEG_PIXEL_SIZE\<close> is taken on
  \<^verbatim>\<open>unsigned int\<close> and wraps, 40000 * 40000 * 3 being 4800000000. The scanline loop
  still copies every row: the last \<^verbatim>\<open>lv_memcpy\<close> writes 120000 bytes at offset 4799880000
  of the buffer at address 4.
\<close>

theorem huge_image_buffer_size_wraps:
  "fst (decoder_info 1 sample_header huge_image_world) = LV_RESULT_OK \<and>
   header_w (fst (snd (decoder_info 1 sample_header huge_image_world))) = 40000 \<and>
   header_h (fst (snd (decoder_info 1 sample_header huge_image_world))) = 40000 \<and>
   fst (decoder_open sample_decoder sample_dsc (after_info 1 sample_header huge_image_world))
     = LV_RESULT_OK \<and>
   img_data (fst (snd (decoder_open sample_decoder sample_dsc
                         (after_info 1 sample_header huge_image_world)))) = 4 \<and>
   entries (after_open sample_decoder sample_dsc (after_info 1 sample_header huge_image_world)) 5
     = Some (inserted_entry sample_decoder huge_image_world 4 505032704 6) \<and>
   DrawBufMalloc 505032704 4 \<in> set (trace
     (after_open sample_decoder sample_dsc (after_info 1 sample_header huge_image_world))) \<and>
   Memcpy (4 + 39999 * 120000) 120000 \<in> set (trace
     (after_open sample_decoder sample_dsc (after_info 1 sample_header huge_image_world))) \<and>
   (40000 * 40000 * 3 :: nat) = 4800000000"
proof -
  define W1 where "W1 = after_info 1 sample_header huge_image_world"
  define W2 where "W2 = lv_cache_unlock (log (CacheFind NULL) (lv_cache_lock W1))"
  have info: "fst (decoder_info 1 sample_header huge_image_world) = LV_RESULT_OK"
    "header_w (fst (snd (decoder_info 1 sample_header huge_image_world))) = 40000"
    "header_h (fst (snd (decoder_info 1 sample_header huge_image_world))) = 40000"
    by (simp_all add: info_defs run_defs sample_defs prim_defs)
  have isfile: "src_type sample_dsc = LV_IMAGE_SRC_FILE" and sp: "src sample_dsc = 1"
    by (simp_all add: sample_defs)
  have miss: "find_in W1 (src sample_dsc) LV_CACHE_SRC_TYPE_PATH (entry_ll W1) = NULL"
    by (simp add: W1_def info_defs run_defs sample_defs prim_defs)
  have loaded: "loaded_data 1 W2 \<noteq> NULL"
    by (simp add: W2_def W1_def info_defs run_defs sample_defs prim_defs)
  have stream: "loaded_stream 1 W2 = sample_stream [] 40000 40000"
    by (simp add: W2_def W1_def info_defs run_defs sample_defs prim_defs)
  have al: "fst (allocate (after_load 1 W2)) = 4"
    by (simp add: W2_def W1_def info_defs run_defs sample_defs prim_defs)
  have plan: "alloc_plan W2 = []" and brk2: "brk W2 = 2"
    and ticks: "decode_ticks W2 = decode_ticks huge_image_world"
    by (simp_all add: W2_def W1_def info_defs run_defs sample_defs prim_defs)
  obtain img osz w2 where dec: "decode_jpeg_file (src sample_dsc) (Some 0) W2 = ((img, osz), w2)"
    by (metis prod.exhaust)
  have noerr: "\<And>c. \<not> error_exit_in (loaded_stream 1 W2) c"
    unfolding stream by (simp add: sample_stream_def)
  have pn: "(4::nat) \<noteq> NULL" by simp
  have dims: "image_width (loaded_stream 1 W2) = 40000" "image_height (loaded_stream 1 W2) = 40000"
    unfolding stream by (simp_all add: sample_stream_def)
  have osize: "output_size 40000 40000 = 505032704"
    by (simp add: output_size_def JPEG_PIXEL_SIZE_def)
  have stride: "unat ((40000 :: u32) * JPEG_PIXEL_SIZE) = 120000"
    by (simp add: JPEG_PIXEL_SIZE_def)
  note ok = decode_jpeg_file_ok [OF loaded noerr al pn dec [unfolded sp],
              unfolded dims osize stride]
  from ok have img: "img = 4" and osz: "osz = Some 505032704" and bw2: "brk w2 = 4"
    and m: "DrawBufMalloc 505032704 4 \<in> set (trace w2)"
    by simp_all
  from ok have "\<forall>i. i < unat (40000 :: u32) \<longrightarrow> Memcpy (4 + i * 120000) 120000 \<in> set (trace w2)"
    by simp
  then have "(39999::nat) < unat (40000 :: u32) \<longrightarrow>
      Memcpy (4 + 39999 * 120000) 120000 \<in> set (trace w2)"
    by (rule spec)
  then have c: "Memcpy (4 + 39999 * 120000) 120000 \<in> set (trace w2)"
    by simp
  from decode_jpeg_file_frame [OF dec] plan ticks
  have plan2: "alloc_plan w2 = []"
    and ticks2: "decode_ticks w2 = decode_ticks huge_image_world"
    by (simp_all add: frame_def)
  define wa where "wa = w2\<lparr>brk := 5\<rparr>"
  have ala: "allocate w2 = (5, wa)"
    by (simp add: allocate_def plan2 bw2 wa_def)
  note op = decoder_open_miss [OF isfile miss dec [unfolded W2_def] ala, of sample_decoder]
  have five: "(5::nat) \<noteq> NULL" by simp
  have res: "decoder_open sample_decoder sample_dsc W1 =
        (LV_RESULT_OK, sample_dsc\<lparr>img_data := img, cache_entry := 5\<rparr>,
         lv_cache_unlock (log (Strdup (src sample_dsc) (Suc (brk wa)))
           (log (CacheAdd 5) (log CacheLock
             (wa\<lparr>brk := Suc (brk wa),
                 cstr := (cstr wa)(Suc (brk wa) := cstr wa (src sample_dsc)),
                 entries := (entries wa)(5 \<mapsto>
                    inserted_entry sample_decoder wa img (case osz of None \<Rightarrow> 0 | Some n \<Rightarrow> n)
                      (Suc (brk wa))),
                 entry_ll := 5 # entry_ll wa\<rparr>)))))"
    using op five by simp
  have twa: "trace wa = trace w2" by (simp add: wa_def)
  show ?thesis
    unfolding W1_def [symmetric]
    using info m c
    by (simp add: after_open_def res img osz lv_cache_unlock_def twa inserted_entry_def
          ticks2 wa_def)
qed

end
